theory Spec2Isabelle
  imports Complex_Main "HOL-Library.Sublist"
begin

section \<open>The database schema (the SQL migration)\<close>

text \<open>
  The migration creates four tables, enables row level security on each, and attaches
  policies whose only expression is \<^verbatim>\<open>auth.uid() = user_id\<close>. The tables, the
  policies and the foreign keys are transcribed as data; the functions that read them
  follow PostgreSQL: with row level security enabled a command touches a row only if
  some policy for that command admits it, an \<^verbatim>\<open>UPDATE\<close> policy without
  \<^verbatim>\<open>WITH CHECK\<close> checks the new row with its \<^verbatim>\<open>USING\<close> expression, and a
  comparison with a null \<^verbatim>\<open>auth.uid()\<close> is not true.
\<close>

type_synonym uuid = string

datatype table_name = Profiles | Resumes | Job_descriptions | Analysis_reports

datatype command = SELECT | INSERT | UPDATE | DELETE

datatype expr = Auth_uid_eq_user_id

record policy =
  pol_name :: string
  pol_table :: table_name
  pol_command :: command
  pol_using :: "expr option"
  pol_with_check :: "expr option"

definition mk_using :: "string \<Rightarrow> table_name \<Rightarrow> command \<Rightarrow> policy" where
  "mk_using n t c =
     \<lparr>pol_name = n, pol_table = t, pol_command = c,
      pol_using = Some Auth_uid_eq_user_id, pol_with_check = None\<rparr>"

definition mk_check :: "string \<Rightarrow> table_name \<Rightarrow> command \<Rightarrow> policy" where
  "mk_check n t c =
     \<lparr>pol_name = n, pol_table = t, pol_command = c,
      pol_using = None, pol_with_check = Some Auth_uid_eq_user_id\<rparr>"

definition policies :: "policy list" where
  "policies =
    [mk_using ''Users can view their own profile'' Profiles SELECT,
     mk_using ''Users can update their own profile'' Profiles UPDATE,
     mk_check ''Users can insert their own profile'' Profiles INSERT,
     mk_using ''Users can view their own resumes'' Resumes SELECT,
     mk_check ''Users can create their own resumes'' Resumes INSERT,
     mk_using ''Users can update their own resumes'' Resumes UPDATE,
     mk_using ''Users can delete their own resumes'' Resumes DELETE,
     mk_using ''Users can view their own job descriptions'' Job_descriptions SELECT,
     mk_check ''Users can create their own job descriptions'' Job_descriptions INSERT,
     mk_using ''Users can update their own job descriptions'' Job_descriptions UPDATE,
     mk_using ''Users can delete their own job descriptions'' Job_descriptions DELETE,
     mk_using ''Users can view their own analysis reports'' Analysis_reports SELECT,
     mk_check ''Users can create their own analysis reports'' Analysis_reports INSERT,
     mk_using ''Users can update their own analysis reports'' Analysis_reports UPDATE,
     mk_using ''Users can delete their own analysis reports'' Analysis_reports DELETE]"

text \<open>\<^verbatim>\<open>ALTER TABLE ... ENABLE ROW LEVEL SECURITY\<close> is issued for all four tables.\<close>

fun rls_enabled :: "table_name \<Rightarrow> bool" where
  "rls_enabled Profiles = True"
| "rls_enabled Resumes = True"
| "rls_enabled Job_descriptions = True"
| "rls_enabled Analysis_reports = True"

text \<open>
  \<open>eval_expr e caller owner\<close>: the value of a policy expression for a caller
  (\<open>None\<close> when \<^verbatim>\<open>auth.uid()\<close> is null) on a row whose \<^verbatim>\<open>user_id\<close> is \<open>owner\<close>.
\<close>

fun eval_expr :: "expr \<Rightarrow> uuid option \<Rightarrow> uuid \<Rightarrow> bool" where
  "eval_expr Auth_uid_eq_user_id None owner = False"
| "eval_expr Auth_uid_eq_user_id (Some u) owner = (u = owner)"

definition policies_for :: "table_name \<Rightarrow> command \<Rightarrow> policy list" where
  "policies_for t c = filter (\<lambda>p. pol_table p = t \<and> pol_command p = c) policies"

fun using_of :: "policy \<Rightarrow> uuid option \<Rightarrow> uuid \<Rightarrow> bool" where
  "using_of p caller owner =
     (case pol_using p of None \<Rightarrow> True | Some e \<Rightarrow> eval_expr e caller owner)"

fun check_of :: "policy \<Rightarrow> uuid option \<Rightarrow> uuid \<Rightarrow> bool" where
  "check_of p caller owner =
     (case pol_with_check p of
        Some e \<Rightarrow> eval_expr e caller owner
      | None \<Rightarrow> using_of p caller owner)"

text \<open>An existing row (owner given) may be read, updated or deleted by the caller.\<close>

definition using_ok :: "uuid option \<Rightarrow> table_name \<Rightarrow> command \<Rightarrow> uuid \<Rightarrow> bool" where
  "using_ok caller t c owner =
     (if rls_enabled t then list_ex (\<lambda>p. using_of p caller owner) (policies_for t c)
      else True)"

text \<open>A new row (owner given) may be written by the caller.\<close>

definition check_ok :: "uuid option \<Rightarrow> table_name \<Rightarrow> command \<Rightarrow> uuid \<Rightarrow> bool" where
  "check_ok caller t c owner =
     (if rls_enabled t then list_ex (\<lambda>p. check_of p caller owner) (policies_for t c)
      else True)"

definition can_select :: "uuid option \<Rightarrow> table_name \<Rightarrow> uuid \<Rightarrow> bool" where
  "can_select caller t owner = using_ok caller t SELECT owner"

definition can_insert :: "uuid option \<Rightarrow> table_name \<Rightarrow> uuid \<Rightarrow> bool" where
  "can_insert caller t new_owner = check_ok caller t INSERT new_owner"

definition can_update :: "uuid option \<Rightarrow> table_name \<Rightarrow> uuid \<Rightarrow> uuid \<Rightarrow> bool" where
  "can_update caller t owner new_owner =
     (using_ok caller t UPDATE owner \<and> check_ok caller t UPDATE new_owner)"

definition can_delete :: "uuid option \<Rightarrow> table_name \<Rightarrow> uuid \<Rightarrow> bool" where
  "can_delete caller t owner = using_ok caller t DELETE owner"

subsection \<open>Rows\<close>

datatype json =
    JNull
  | JBool bool
  | JNum rat
  | JStr string
  | JArr "json list"
  | JObj "(string \<times> json) list"

text \<open>The columns of \<^verbatim>\<open>public.resumes\<close>, prefixed \<open>r_\<close>.\<close>

record resume =
  r_id :: uuid
  r_user_id :: uuid
  r_title :: string
  r_file_name :: string
  r_file_path :: string
  r_file_size :: "int option"
  r_content_text :: "string option"
  r_created_at :: string
  r_updated_at :: string

text \<open>The columns of \<^verbatim>\<open>public.job_descriptions\<close>, prefixed \<open>jd_\<close>.\<close>

record job_description =
  jd_id :: uuid
  jd_user_id :: uuid
  jd_title :: string
  jd_company :: "string option"
  jd_description :: string
  jd_requirements :: "string option"
  jd_created_at :: string
  jd_updated_at :: string

text \<open>
  The columns of \<^verbatim>\<open>public.analysis_reports\<close>, prefixed \<open>ar_\<close>. The seven analysis
  columns are nullable; their values are kept as the JSON the row is returned with
  (\<open>JNull\<close> for SQL null).
\<close>

record analysis_report =
  ar_id :: uuid
  ar_user_id :: uuid
  ar_resume_id :: uuid
  ar_job_description_id :: uuid
  ar_relevance_score :: json
  ar_missing_skills :: json
  ar_strengths :: json
  ar_weaknesses :: json
  ar_improvement_suggestions :: json
  ar_ai_summary :: json
  ar_interview_questions :: json
  ar_created_at :: string
  ar_updated_at :: string

text \<open>
  The seven analysis columns of a row, as the properties they are in the JSON object the
  row is returned as.
\<close>

definition analysis_fields :: "analysis_report \<Rightarrow> (string \<times> json) list" where
  "analysis_fields a =
     [(''relevance_score'', ar_relevance_score a),
      (''missing_skills'', ar_missing_skills a),
      (''strengths'', ar_strengths a),
      (''weaknesses'', ar_weaknesses a),
      (''improvement_suggestions'', ar_improvement_suggestions a),
      (''ai_summary'', ar_ai_summary a),
      (''interview_questions'', ar_interview_questions a)]"

record database =
  resumes :: "resume list"
  job_descriptions :: "job_description list"
  analysis_reports :: "analysis_report list"

subsection \<open>Foreign keys\<close>

datatype fk_action = No_action | Cascade

record foreign_key =
  fk_table :: table_name
  fk_column :: string
  fk_references :: table_name
  fk_on_delete :: fk_action

definition foreign_keys :: "foreign_key list" where
  "foreign_keys =
    [\<lparr>fk_table = Analysis_reports, fk_column = ''resume_id'',
      fk_references = Resumes, fk_on_delete = Cascade\<rparr>,
     \<lparr>fk_table = Analysis_reports, fk_column = ''job_description_id'',
      fk_references = Job_descriptions, fk_on_delete = Cascade\<rparr>]"

definition ar_column :: "string \<Rightarrow> analysis_report \<Rightarrow> uuid option" where
  "ar_column c ar =
     (if c = ''resume_id'' then Some (ar_resume_id ar)
      else if c = ''job_description_id'' then Some (ar_job_description_id ar)
      else None)"

text \<open>
  \<open>refers a t k ar\<close>: report \<open>ar\<close> references the row with key \<open>k\<close> of table \<open>t\<close>
  through a foreign key whose delete action is \<open>a\<close>.
\<close>

definition refers :: "fk_action \<Rightarrow> table_name \<Rightarrow> uuid \<Rightarrow> analysis_report \<Rightarrow> bool" where
  "refers a t k ar =
     list_ex (\<lambda>fk. fk_table fk = Analysis_reports \<and> fk_references fk = t \<and>
                   fk_on_delete fk = a \<and> ar_column (fk_column fk) ar = Some k)
             foreign_keys"

definition remove_parent :: "table_name \<Rightarrow> uuid \<Rightarrow> database \<Rightarrow> database" where
  "remove_parent t k db =
     (case t of
        Resumes \<Rightarrow> db\<lparr>resumes := filter (\<lambda>r. r_id r \<noteq> k) (resumes db)\<rparr>
      | Job_descriptions \<Rightarrow>
          db\<lparr>job_descriptions := filter (\<lambda>j. jd_id j \<noteq> k) (job_descriptions db)\<rparr>
      | _ \<Rightarrow> db)"

text \<open>
  \<^verbatim>\<open>DELETE FROM t WHERE id = k\<close> on a parent table: refused (\<open>None\<close>) while a report
  references the row through a foreign key without a delete action; otherwise the row
  goes, and with it every report referencing it through a cascading foreign key.
\<close>

definition delete_row :: "table_name \<Rightarrow> uuid \<Rightarrow> database \<Rightarrow> database option" where
  "delete_row t k db =
     (if list_ex (refers No_action t k) (analysis_reports db) then None
      else Some ((remove_parent t k db)
                   \<lparr>analysis_reports :=
                      filter (\<lambda>ar. \<not> refers Cascade t k ar) (analysis_reports db)\<rparr>))"

subsection \<open>Commands under a user's identity\<close>

text \<open>
  Referential integrity is not subject to row level security: a foreign key is checked
  against every row of the referenced table, and a cascading delete removes the
  referencing rows whoever owns them.
\<close>

definition key_exists :: "table_name \<Rightarrow> uuid \<Rightarrow> database \<Rightarrow> bool" where
  "key_exists t k db =
     (case t of
        Resumes \<Rightarrow> list_ex (\<lambda>r. r_id r = k) (resumes db)
      | Job_descriptions \<Rightarrow> list_ex (\<lambda>j. jd_id j = k) (job_descriptions db)
      | Analysis_reports \<Rightarrow> list_ex (\<lambda>a. ar_id a = k) (analysis_reports db)
      | Profiles \<Rightarrow> False)"

text \<open>
  \<^verbatim>\<open>INSERT INTO analysis_reports\<close> by \<open>caller\<close>: refused (\<open>None\<close>) when the
  \<^verbatim>\<open>WITH CHECK\<close> policy rejects the new row, when its primary key is taken, or when
  one of its foreign keys has no target.
\<close>

definition insert_report :: "uuid option \<Rightarrow> analysis_report \<Rightarrow> database \<Rightarrow> database option" where
  "insert_report caller rep db =
     (if \<not> can_insert caller Analysis_reports (ar_user_id rep) then None
      else if key_exists Analysis_reports (ar_id rep) db then None
      else if list_ex (\<lambda>fk. fk_table fk = Analysis_reports \<and>
                 (case ar_column (fk_column fk) rep of
                    None \<Rightarrow> False
                  | Some k \<Rightarrow> \<not> key_exists (fk_references fk) k db))
               foreign_keys
      then None
      else Some (db\<lparr>analysis_reports := analysis_reports db @ [rep]\<rparr>))"

text \<open>
  \<open>admitted_target caller t k db\<close>: table \<open>t\<close> has a row with key \<open>k\<close> that the
  caller's \<^verbatim>\<open>SELECT\<close> and \<^verbatim>\<open>DELETE\<close> policies admit. Rows of \<^verbatim>\<open>profiles\<close> are not
  kept in the database record; no policy admits a delete there.
\<close>

definition admitted_target :: "uuid option \<Rightarrow> table_name \<Rightarrow> uuid \<Rightarrow> database \<Rightarrow> bool" where
  "admitted_target caller t k db =
     (case t of
        Resumes \<Rightarrow>
          list_ex (\<lambda>r. r_id r = k \<and> can_select caller t (r_user_id r) \<and>
                       can_delete caller t (r_user_id r)) (resumes db)
      | Job_descriptions \<Rightarrow>
          list_ex (\<lambda>j. jd_id j = k \<and> can_select caller t (jd_user_id j) \<and>
                       can_delete caller t (jd_user_id j)) (job_descriptions db)
      | Analysis_reports \<Rightarrow>
          list_ex (\<lambda>a. ar_id a = k \<and> can_select caller t (ar_user_id a) \<and>
                       can_delete caller t (ar_user_id a)) (analysis_reports db)
      | Profiles \<Rightarrow> False)"

text \<open>
  \<^verbatim>\<open>DELETE FROM t WHERE id = k\<close> by \<open>caller\<close>: nothing happens unless the policies
  admit the row; an admitted report is removed, an admitted resume or job description is
  deleted as \<open>delete_row\<close> says.
\<close>

definition delete_as :: "uuid option \<Rightarrow> table_name \<Rightarrow> uuid \<Rightarrow> database \<Rightarrow> database option" where
  "delete_as caller t k db =
     (if \<not> admitted_target caller t k db then Some db
      else if t = Analysis_reports
      then Some (db\<lparr>analysis_reports := filter (\<lambda>a. ar_id a \<noteq> k) (analysis_reports db)\<rparr>)
      else delete_row t k db)"

section \<open>The upload flow (\<^verbatim>\<open>handleFileUpload\<close> of the dashboard page)\<close>

text \<open>The browser's \<^verbatim>\<open>File\<close>: its name, MIME type and size in bytes.\<close>

record browser_file =
  f_name :: string
  f_type :: string
  f_size :: nat

definition allowedTypes :: "string list" where
  "allowedTypes =
     [''application/pdf'',
      ''application/vnd.openxmlformats-officedocument.wordprocessingml.document'']"

text \<open>\<^verbatim>\<open>s.split(c)\<close> for a one-character separator: never the empty array.\<close>

fun split_on :: "char \<Rightarrow> string \<Rightarrow> string list" where
  "split_on c [] = [[]]"
| "split_on c (x # xs) =
     (if x = c then [] # split_on c xs
      else (case split_on c xs of
              [] \<Rightarrow> [[x]]
            | w # ws \<Rightarrow> (x # w) # ws))"

text \<open>\<^verbatim>\<open>file.name.split('.').pop()\<close>\<close>

definition fileExt :: "string \<Rightarrow> string" where
  "fileExt name = last (split_on (CHR ''.'') name)"

text \<open>
  \<^verbatim>\<open>name.replace(/\.[^/.]+$/, "")\<close>: the engine tries each position from the left;
  the pattern matches at a dot followed, up to the end of the string, by one or more
  characters that are neither a slash nor a dot, and the match is replaced by nothing.
\<close>

fun remove_extension :: "string \<Rightarrow> string" where
  "remove_extension [] = []"
| "remove_extension (c # cs) =
     (if c = CHR ''.'' \<and> cs \<noteq> [] \<and> list_all (\<lambda>d. d \<noteq> CHR ''/'' \<and> d \<noteq> CHR ''.'') cs
      then []
      else c # remove_extension cs)"

text \<open>The decimal text of a number, as a template literal renders \<^verbatim>\<open>Date.now()\<close>.\<close>

definition digit :: "nat \<Rightarrow> char" where
  "digit d = ''0123456789'' ! d"

fun dec :: "nat \<Rightarrow> string" where
  "dec n = (if n < 10 then [digit n] else dec (n div 10) @ [digit (n mod 10)])"

declare dec.simps [simp del]

text \<open>\<^verbatim>\<open>`${user.id}/${Date.now()}.${fileExt}`\<close>\<close>

definition storage_key :: "uuid \<Rightarrow> nat \<Rightarrow> string \<Rightarrow> string" where
  "storage_key uid now name = uid @ ''/'' @ dec now @ ''.'' @ fileExt name"

text \<open>The object passed to \<^verbatim>\<open>insert\<close>.\<close>

record resume_insert =
  ri_user_id :: uuid
  ri_title :: string
  ri_file_name :: string
  ri_file_path :: string
  ri_file_size :: nat

text \<open>
  What the page cannot decide by itself: the clock, whether the storage service and the
  database accept a call (\<open>Some message\<close> is the error they return), and the key and
  timestamp the database gives a new row.
\<close>

record upload_env =
  date_now :: nat
  upload_error :: "string \<Rightarrow> browser_file \<Rightarrow> string option"
  insert_error :: "resume_insert \<Rightarrow> string option"
  new_id :: uuid
  db_now :: string

datatype call =
    Storage_upload string browser_file
  | Db_insert_resume resume_insert
  | Load_resumes

datatype ui_event =
    Toast "string option" string string
  | Set_is_uploading bool

record world =
  bucket :: "(string \<times> browser_file) list"
  tables :: database

record upload_result =
  calls :: "call list"
  ui :: "ui_event list"
  after :: world

definition stored_resume :: "upload_env \<Rightarrow> resume_insert \<Rightarrow> resume" where
  "stored_resume env p =
     \<lparr>r_id = new_id env, r_user_id = ri_user_id p, r_title = ri_title p,
      r_file_name = ri_file_name p, r_file_path = ri_file_path p,
      r_file_size = Some (int (ri_file_size p)), r_content_text = None,
      r_created_at = db_now env, r_updated_at = db_now env\<rparr>"

text \<open>
  The insert runs under the signed-in user's identity, so the row level security check
  of \<^verbatim>\<open>resumes\<close> applies to it besides whatever else the database may refuse.
\<close>

definition client_insert_error :: "upload_env \<Rightarrow> uuid \<Rightarrow> resume_insert \<Rightarrow> string option" where
  \<open>client_insert_error env uid p =
     (if \<not> can_insert (Some uid) Resumes (ri_user_id p)
      then Some ''new row violates row-level security policy for table "resumes"''
      else insert_error env p)\<close>

definition success_toast :: ui_event where
  "success_toast = Toast None ''Success'' ''Resume uploaded successfully''"

definition handleFileUpload ::
    "upload_env \<Rightarrow> world \<Rightarrow> browser_file option \<Rightarrow> uuid option \<Rightarrow> upload_result" where
  "handleFileUpload env w file user =
     (case (file, user) of
        (Some f, Some uid) \<Rightarrow>
          if f_type f \<notin> set allowedTypes then
            \<lparr>calls = [],
             ui = [Toast (Some ''destructive'') ''Invalid File Type''
                     ''Please upload a PDF or DOCX file''],
             after = w\<rparr>
          else if f_size f > 5 * 1024 * 1024 then
            \<lparr>calls = [],
             ui = [Toast (Some ''destructive'') ''File Too Large''
                     ''Please upload a file smaller than 5MB''],
             after = w\<rparr>
          else
            (let fileName = storage_key uid (date_now env) (f_name f) in
             case upload_error env fileName f of
               Some msg \<Rightarrow>
                 \<lparr>calls = [Storage_upload fileName f],
                  ui = [Set_is_uploading True,
                        Toast (Some ''destructive'') ''Upload Failed'' msg,
                        Set_is_uploading False],
                  after = w\<rparr>
             | None \<Rightarrow>
                 (let w1 = w\<lparr>bucket := bucket w @ [(fileName, f)]\<rparr>;
                      row = \<lparr>ri_user_id = uid,
                             ri_title = remove_extension (f_name f),
                             ri_file_name = f_name f,
                             ri_file_path = fileName,
                             ri_file_size = f_size f\<rparr>
                  in case client_insert_error env uid row of
                       Some msg \<Rightarrow>
                         \<lparr>calls = [Storage_upload fileName f, Db_insert_resume row],
                          ui = [Set_is_uploading True,
                                Toast (Some ''destructive'') ''Upload Failed'' msg,
                                Set_is_uploading False],
                          after = w1\<rparr>
                     | None \<Rightarrow>
                         \<lparr>calls = [Storage_upload fileName f, Db_insert_resume row,
                                   Load_resumes],
                          ui = [Set_is_uploading True, success_toast,
                                Set_is_uploading False],
                          after = w1\<lparr>tables := (tables w1)\<lparr>resumes :=
                                    resumes (tables w1) @ [stored_resume env row]\<rparr>\<rparr>\<rparr>))
      | _ \<Rightarrow> \<lparr>calls = [], ui = [], after = w\<rparr>)"

section \<open>The analysis endpoint (\<^verbatim>\<open>analyze-resume/index.ts\<close>)\<close>

subsection \<open>Values of the runtime\<close>

text \<open>
  A request as the handler reads it: the method, the \<^verbatim>\<open>Authorization\<close> header
  (\<open>None\<close> when \<^verbatim>\<open>headers.get\<close> returns null) and the body text.
\<close>

record request =
  req_method :: string
  req_authorization :: "string option"
  req_body :: string

text \<open>
  What is thrown: \<^verbatim>\<open>new Error(m)\<close>, or an error of the engine. The engine's
  message texts depend on the input; each kind is given one text here. The handler
  compares a message only with \<^verbatim>\<open>'Unauthorized'\<close>, which no engine message is.
\<close>

datatype exn = Error string | SyntaxError | TypeError

fun message :: "exn \<Rightarrow> string" where
  "message (Error m) = m"
| "message SyntaxError = ''Unexpected end of JSON input''"
| "message TypeError = ''Cannot read properties of null''"

text \<open>\<^verbatim>\<open>v.name\<close> on a value other than null; \<open>None\<close> is \<^verbatim>\<open>undefined\<close>.\<close>

fun get_prop :: "json \<Rightarrow> string \<Rightarrow> json option" where
  "get_prop (JObj kvs) k = map_of kvs k"
| "get_prop _ k = None"

text \<open>\<^verbatim>\<open>!v\<close> is the negation of this.\<close>

fun truthy :: "json option \<Rightarrow> bool" where
  "truthy None = False"
| "truthy (Some JNull) = False"
| "truthy (Some (JBool b)) = b"
| "truthy (Some (JNum n)) = (n \<noteq> 0)"
| "truthy (Some (JStr s)) = (s \<noteq> [])"
| "truthy (Some (JArr xs)) = True"
| "truthy (Some (JObj kvs)) = True"

text \<open>\<^verbatim>\<open>s.replace(pat, '')\<close> for a non-empty string pattern: the first occurrence goes.\<close>

fun remove_first :: "string \<Rightarrow> string \<Rightarrow> string" where
  "remove_first pat [] = []"
| "remove_first pat (c # cs) =
     (if prefix pat (c # cs) then drop (length pat) (c # cs)
      else c # remove_first pat cs)"

subsection \<open>Responses\<close>

definition corsHeaders :: "(string \<times> string) list" where
  "corsHeaders =
     [(''Access-Control-Allow-Origin'', ''*''),
      (''Access-Control-Allow-Headers'',
       ''authorization, x-client-info, apikey, content-type'')]"

text \<open>
  The body of a response: none, \<^verbatim>\<open>{success: true, analysis: row}\<close>, or
  \<^verbatim>\<open>{error: message, success: false}\<close>.
\<close>

datatype body = No_body | Success_body analysis_report | Failure_body string

record response =
  res_status :: nat
  res_headers :: "(string \<times> string) list"
  res_body :: body

definition json_headers :: "(string \<times> string) list" where
  "json_headers = corsHeaders @ [(''Content-Type'', ''application/json'')]"

definition ok_response :: "analysis_report \<Rightarrow> response" where
  "ok_response saved =
     \<lparr>res_status = 200, res_headers = json_headers, res_body = Success_body saved\<rparr>"

text \<open>The \<^verbatim>\<open>catch\<close> block.\<close>

definition error_response :: "exn \<Rightarrow> response" where
  "error_response e =
     \<lparr>res_status = (if message e = ''Unauthorized'' then 401 else 500),
      res_headers = json_headers,
      res_body = Failure_body
        (if message e = [] then ''An unexpected error occurred'' else message e)\<rparr>"

subsection \<open>The services the handler calls\<close>

text \<open>\<^verbatim>\<open>{data: {user}, error}\<close> of \<^verbatim>\<open>auth.getUser(token)\<close>; a user is known by its id.\<close>

record auth_response =
  au_user :: "uuid option"
  au_error :: "string option"

text \<open>The object passed to \<^verbatim>\<open>insert\<close>; a property that is \<^verbatim>\<open>undefined\<close> is \<open>None\<close>.\<close>

record report_insert =
  ins_user_id :: uuid
  ins_resume_id :: json
  ins_job_description_id :: json
  ins_relevance_score :: "json option"
  ins_missing_skills :: "json option"
  ins_strengths :: "json option"
  ins_weaknesses :: "json option"
  ins_improvement_suggestions :: "json option"
  ins_ai_summary :: "json option"
  ins_interview_questions :: "json option"

datatype db_call =
    Select_resume json uuid
  | Select_job_description json uuid
  | Insert_report report_insert

datatype effect =
    Auth_get_user string
  | Db db_call
  | Openai_fetch string

text \<open>
  The outcome of the request to the model, up to the reading of
  \<^verbatim>\<open>choices[0].message.content\<close>: something in that stretch throws; the response is
  not ok (with its error text); or it is ok and the content is a string or null.
\<close>

datatype openai_outcome =
    Fetch_throws exn
  | Not_ok string
  | Ok_content "string option"

text \<open>
  What the handler cannot decide by itself: the auth service, \<^verbatim>\<open>JSON.parse\<close>
  (\<open>None\<close> when it throws a \<^verbatim>\<open>SyntaxError\<close>), the text the engine gives a number,
  the key the database reads a text as (\<open>None\<close> when the text is not a UUID),
  whether the database answers a call with an error, the model, and the key and
  timestamp the database gives a new row.
\<close>

record env =
  getUser :: "string \<Rightarrow> auth_response"
  JSON_parse :: "string \<Rightarrow> json option"
  Number_toString :: "rat \<Rightarrow> string"
  uuid_in :: "string \<Rightarrow> uuid option"
  db_error :: "db_call \<Rightarrow> string option"
  openai :: "string \<Rightarrow> openai_outcome"
  gen_random_uuid :: uuid
  now :: string

record outcome =
  response :: response
  database_after :: database
  effects :: "effect list"

definition thrown :: "exn \<Rightarrow> database \<Rightarrow> effect list \<Rightarrow> outcome" where
  "thrown e d tr = \<lparr>response = error_response e, database_after = d, effects = tr\<rparr>"

text \<open>\<^verbatim>\<open>.single()\<close>: exactly one row, or an error.\<close>

fun single :: "'a list \<Rightarrow> 'a option" where
  "single [x] = Some x"
| "single _ = None"

text \<open>
  The text a value becomes in a template literal. An array is its elements' texts
  joined by commas, a null element giving the empty text.
\<close>

fun join_comma :: "string list \<Rightarrow> string" where
  "join_comma [] = []"
| "join_comma [x] = x"
| "join_comma (x # y # ys) = x @ '','' @ join_comma (y # ys)"

fun js_to_string :: "(rat \<Rightarrow> string) \<Rightarrow> json \<Rightarrow> string" where
  "js_to_string num JNull = ''null''"
| "js_to_string num (JBool b) = (if b then ''true'' else ''false'')"
| "js_to_string num (JNum n) = num n"
| "js_to_string num (JStr s) = s"
| "js_to_string num (JArr xs) =
     join_comma (map (\<lambda>x. if x = JNull then [] else js_to_string num x) xs)"
| "js_to_string num (JObj kvs) = ''[object Object]''"

text \<open>
  \<^verbatim>\<open>.eq('id', value)\<close> puts \<^verbatim>\<open>`eq.${value}`\<close> into the query, whatever the value
  is, and the database reads that text as a UUID to compare it with the key column;
  a text that is not a UUID is an error.
\<close>

definition filter_key :: "env \<Rightarrow> json \<Rightarrow> uuid option" where
  "filter_key e v = uuid_in e (js_to_string (Number_toString e) v)"

text \<open>
  The two lookups. The client holds the service role key, so row level security does
  not apply; the filter on \<^verbatim>\<open>user_id\<close> is the handler's own.
\<close>

definition select_resume :: "env \<Rightarrow> database \<Rightarrow> json \<Rightarrow> uuid \<Rightarrow> resume option" where
  "select_resume e d resumeId uid =
     (case db_error e (Select_resume resumeId uid) of
        Some err \<Rightarrow> None
      | None \<Rightarrow>
          (case filter_key e resumeId of
             None \<Rightarrow> None
           | Some k \<Rightarrow> single (filter (\<lambda>r. r_id r = k \<and> r_user_id r = uid) (resumes d))))"

definition select_job_description ::
    "env \<Rightarrow> database \<Rightarrow> json \<Rightarrow> uuid \<Rightarrow> job_description option" where
  "select_job_description e d jobDescriptionId uid =
     (case db_error e (Select_job_description jobDescriptionId uid) of
        Some err \<Rightarrow> None
      | None \<Rightarrow>
          (case filter_key e jobDescriptionId of
             None \<Rightarrow> None
           | Some k \<Rightarrow>
               single (filter (\<lambda>j. jd_id j = k \<and> jd_user_id j = uid)
                         (job_descriptions d))))"

subsection \<open>The prompt\<close>

definition placeholder :: string where
  "placeholder = ''Resume content would be extracted from the uploaded file''"

text \<open>\<^verbatim>\<open>let resumeText = resume.content_text; if (!resumeText) resumeText = ...\<close>\<close>

definition resumeText :: "resume \<Rightarrow> string" where
  "resumeText r =
     (case r_content_text r of
        None \<Rightarrow> placeholder
      | Some t \<Rightarrow> if t = [] then placeholder else t)"

text \<open>\<^verbatim>\<open>x || 'Not specified'\<close> on a nullable text column.\<close>

definition or_not_specified :: "string option \<Rightarrow> string" where
  "or_not_specified x =
     (case x of
        None \<Rightarrow> ''Not specified''
      | Some t \<Rightarrow> if t = [] then ''Not specified'' else t)"

definition prompt_head :: string where
  \<open>prompt_head =
    ''\<newline>'' @
    ''Analyze the following resume against the job description and provide a comprehensive analysis.\<newline>'' @
    ''\<newline>'' @
    ''RESUME:\<newline>''\<close>

definition prompt_before_title :: string where
  \<open>prompt_before_title =
    ''\<newline>'' @
    ''\<newline>'' @
    ''JOB DESCRIPTION:\<newline>'' @
    ''Title: ''\<close>

definition prompt_before_company :: string where
  \<open>prompt_before_company =
    ''\<newline>'' @
    ''Company: ''\<close>

definition prompt_before_description :: string where
  \<open>prompt_before_description =
    ''\<newline>'' @
    ''Description: ''\<close>

definition prompt_before_requirements :: string where
  \<open>prompt_before_requirements =
    ''\<newline>'' @
    ''Requirements: ''\<close>

definition prompt_tail :: string where
  \<open>prompt_tail =
    ''\<newline>'' @
    ''\<newline>'' @
    ''Please provide a detailed analysis in the following JSON format:\<newline>'' @
    ''{\<newline>'' @
    ''  "relevance_score": <number between 0-100>,\<newline>'' @
    ''  "missing_skills": ["skill1", "skill2"],\<newline>'' @
    ''  "strengths": ["strength1", "strength2"],\<newline>'' @
    ''  "weaknesses": ["weakness1", "weakness2"],\<newline>'' @
    ''  "improvement_suggestions": "Detailed suggestions for improvement",\<newline>'' @
    ''  "ai_summary": "Brief summary of the resume",\<newline>'' @
    ''  "interview_questions": ["question1", "question2", "question3", "question4", "question5"]\<newline>'' @
    ''}\<newline>'' @
    ''\<newline>'' @
    ''Focus on:\<newline>'' @
    ''1. ATS compatibility and keyword matching\<newline>'' @
    ''2. Skills alignment with job requirements\<newline>'' @
    ''3. Experience relevance\<newline>'' @
    ''4. Areas for improvement\<newline>'' @
    ''5. Predicted interview questions based on the role\<newline>'' @
    ''\<newline>'' @
    ''Provide actionable, specific feedback.''\<close>

text \<open>The template literal, as a function of what fills its five holes.\<close>

definition prompt_template :: "string \<Rightarrow> string \<Rightarrow> string \<Rightarrow> string \<Rightarrow> string \<Rightarrow> string" where
  "prompt_template text title company description requirements =
     prompt_head @ text @
     prompt_before_title @ title @
     prompt_before_company @ company @
     prompt_before_description @ description @
     prompt_before_requirements @ requirements @
     prompt_tail"

definition analysisPrompt :: "resume \<Rightarrow> job_description \<Rightarrow> string" where
  "analysisPrompt r j =
     prompt_template (resumeText r) (jd_title j) (or_not_specified (jd_company j))
       (jd_description j) (or_not_specified (jd_requirements j))"

subsection \<open>The handler\<close>

text \<open>The object substituted when \<^verbatim>\<open>JSON.parse\<close> throws.\<close>

definition fallback :: json where
  "fallback = JObj
     [(''relevance_score'', JNum 75),
      (''missing_skills'', JArr [JStr ''Project Management'', JStr ''Data Analysis'']),
      (''strengths'',
         JArr [JStr ''Strong technical background'', JStr ''Good communication skills'']),
      (''weaknesses'',
         JArr [JStr ''Limited industry experience'', JStr ''Missing key certifications'']),
      (''improvement_suggestions'',
         JStr (''Consider adding more specific metrics and achievements to quantify '' @
               ''your impact. Include relevant keywords from the job description.'')),
      (''ai_summary'',
         JStr (''Experienced professional with strong technical skills but could '' @
               ''benefit from highlighting specific achievements and '' @
               ''industry-relevant experience.'')),
      (''interview_questions'',
         JArr [JStr ''Tell me about your experience with project management'',
               JStr ''How do you handle tight deadlines?'',
               JStr ''Describe a challenging technical problem you solved'',
               JStr ''What interests you about this role?'',
               JStr ''Where do you see yourself in 5 years?''])]"

text \<open>A column that was not given a value holds null.\<close>

fun column :: "json option \<Rightarrow> json" where
  "column None = JNull"
| "column (Some v) = v"

text \<open>
  The row the database stores for an accepted insert. Its two foreign keys are the keys
  of the rows the lookups returned: the database reads an id in the inserted object as
  it read the same id in the filter.
\<close>

definition stored_report :: "env \<Rightarrow> uuid \<Rightarrow> uuid \<Rightarrow> report_insert \<Rightarrow> analysis_report" where
  "stored_report e resume_key job_key p =
     \<lparr>ar_id = gen_random_uuid e, ar_user_id = ins_user_id p,
      ar_resume_id = resume_key, ar_job_description_id = job_key,
      ar_relevance_score = column (ins_relevance_score p),
      ar_missing_skills = column (ins_missing_skills p),
      ar_strengths = column (ins_strengths p),
      ar_weaknesses = column (ins_weaknesses p),
      ar_improvement_suggestions = column (ins_improvement_suggestions p),
      ar_ai_summary = column (ins_ai_summary p),
      ar_interview_questions = column (ins_interview_questions p),
      ar_created_at = now e, ar_updated_at = now e\<rparr>"

definition insert_payload :: "uuid \<Rightarrow> json \<Rightarrow> json \<Rightarrow> json \<Rightarrow> report_insert" where
  "insert_payload uid resumeId jobDescriptionId analysisResult =
     \<lparr>ins_user_id = uid, ins_resume_id = resumeId,
      ins_job_description_id = jobDescriptionId,
      ins_relevance_score = get_prop analysisResult ''relevance_score'',
      ins_missing_skills = get_prop analysisResult ''missing_skills'',
      ins_strengths = get_prop analysisResult ''strengths'',
      ins_weaknesses = get_prop analysisResult ''weaknesses'',
      ins_improvement_suggestions = get_prop analysisResult ''improvement_suggestions'',
      ins_ai_summary = get_prop analysisResult ''ai_summary'',
      ins_interview_questions = get_prop analysisResult ''interview_questions''\<rparr>"

text \<open>
  ``Save analysis to database''. Building the inserted object reads seven properties of
  \<^verbatim>\<open>analysisResult\<close>, which throws when that is null. Whether the database accepts
  the object, its ids included, is the environment's answer to the call.
\<close>

definition save_analysis ::
    "env \<Rightarrow> database \<Rightarrow> effect list \<Rightarrow> uuid \<Rightarrow> json \<Rightarrow> json \<Rightarrow> resume \<Rightarrow> job_description
       \<Rightarrow> json \<Rightarrow> outcome" where
  "save_analysis e d tr uid resumeId jobDescriptionId r j analysisResult =
     (if analysisResult = JNull then thrown TypeError d tr
      else
        (let p = insert_payload uid resumeId jobDescriptionId analysisResult;
             saved = stored_report e (r_id r) (jd_id j) p
         in case db_error e (Insert_report p) of
              Some err \<Rightarrow>
                thrown (Error ''Failed to save analysis'') d (tr @ [Db (Insert_report p)])
            | None \<Rightarrow>
                \<lparr>response = ok_response saved,
                 database_after = d\<lparr>analysis_reports := analysis_reports d @ [saved]\<rparr>,
                 effects = tr @ [Db (Insert_report p)]\<rparr>))"

text \<open>
  ``Call OpenAI API'' and the parse of the content. \<^verbatim>\<open>JSON.parse\<close> converts its
  argument to a string first, so null content is parsed as the text \<^verbatim>\<open>null\<close>.
\<close>

definition analyze ::
    "env \<Rightarrow> database \<Rightarrow> effect list \<Rightarrow> uuid \<Rightarrow> json \<Rightarrow> json \<Rightarrow> resume \<Rightarrow> job_description
       \<Rightarrow> outcome" where
  "analyze e d tr uid resumeId jobDescriptionId r j =
     (let tr1 = tr @ [Openai_fetch (analysisPrompt r j)] in
      case openai e (analysisPrompt r j) of
        Fetch_throws x \<Rightarrow> thrown x d tr1
      | Not_ok errorData \<Rightarrow> thrown (Error ''Failed to analyze resume with AI'') d tr1
      | Ok_content content \<Rightarrow>
          (let analysisText = (case content of None \<Rightarrow> ''null'' | Some s \<Rightarrow> s);
               analysisResult =
                 (case JSON_parse e analysisText of None \<Rightarrow> fallback | Some v \<Rightarrow> v)
           in save_analysis e d tr1 uid resumeId jobDescriptionId r j analysisResult))"

text \<open>``Get resume data'' and ``Get job description data''.\<close>

definition get_rows ::
    "env \<Rightarrow> database \<Rightarrow> effect list \<Rightarrow> uuid \<Rightarrow> json \<Rightarrow> json \<Rightarrow> outcome" where
  "get_rows e d tr uid resumeId jobDescriptionId =
     (let tr1 = tr @ [Db (Select_resume resumeId uid)] in
      case select_resume e d resumeId uid of
        None \<Rightarrow> thrown (Error ''Resume not found'') d tr1
      | Some r \<Rightarrow>
          (let tr2 = tr1 @ [Db (Select_job_description jobDescriptionId uid)] in
           case select_job_description e d jobDescriptionId uid of
             None \<Rightarrow> thrown (Error ''Job description not found'') d tr2
           | Some j \<Rightarrow> analyze e d tr2 uid resumeId jobDescriptionId r j))"

text \<open>
  \<^verbatim>\<open>if (!resumeId || !jobDescriptionId)\<close>: the two properties of the parsed body, when
  both are truthy.
\<close>

definition required_ids :: "json \<Rightarrow> (json \<times> json) option" where
  "required_ids b =
     (case (get_prop b ''resumeId'', get_prop b ''jobDescriptionId'') of
        (Some resumeId, Some jobDescriptionId) \<Rightarrow>
          if \<not> truthy (Some resumeId) \<or> \<not> truthy (Some jobDescriptionId) then None
          else Some (resumeId, jobDescriptionId)
      | _ \<Rightarrow> None)"

text \<open>
  \<^verbatim>\<open>const { resumeId, jobDescriptionId } = await req.json()\<close> and the check of the
  two ids. Destructuring null throws.
\<close>

definition read_ids :: "env \<Rightarrow> database \<Rightarrow> effect list \<Rightarrow> uuid \<Rightarrow> request \<Rightarrow> outcome" where
  "read_ids e d tr uid req =
     (case JSON_parse e (req_body req) of
        None \<Rightarrow> thrown SyntaxError d tr
      | Some b \<Rightarrow>
          if b = JNull then thrown TypeError d tr
          else
            (case required_ids b of
               None \<Rightarrow> thrown (Error ''Resume ID and Job Description ID are required'') d tr
             | Some (resumeId, jobDescriptionId) \<Rightarrow>
                 get_rows e d tr uid resumeId jobDescriptionId))"

text \<open>``Get the authorization header'' and ``Verify user authentication''.\<close>

definition authenticate :: "env \<Rightarrow> database \<Rightarrow> request \<Rightarrow> outcome" where
  "authenticate e d req =
     (case req_authorization req of
        None \<Rightarrow> thrown (Error ''No authorization header'') d []
      | Some authHeader \<Rightarrow>
          if authHeader = [] then thrown (Error ''No authorization header'') d []
          else
            (let token = remove_first ''Bearer '' authHeader in
             case au_user (getUser e token) of
               None \<Rightarrow> thrown (Error ''Unauthorized'') d [Auth_get_user token]
             | Some uid \<Rightarrow>
                 if au_error (getUser e token) \<noteq> None
                 then thrown (Error ''Unauthorized'') d [Auth_get_user token]
                 else read_ids e d [Auth_get_user token] uid req))"

definition serve :: "env \<Rightarrow> database \<Rightarrow> request \<Rightarrow> outcome" where
  "serve e d req =
     (if req_method req = ''OPTIONS''
      then \<lparr>response = \<lparr>res_status = 200, res_headers = corsHeaders, res_body = No_body\<rparr>,
            database_after = d, effects = []\<rparr>
      else authenticate e d req)"

subsection \<open>Sample data\<close>

definition demo_report :: "uuid \<Rightarrow> uuid \<Rightarrow> uuid \<Rightarrow> analysis_report" where
  "demo_report i r j =
     \<lparr>ar_id = i, ar_user_id = ''u1'', ar_resume_id = r, ar_job_description_id = j,
      ar_relevance_score = JNum 75, ar_missing_skills = JArr [], ar_strengths = JArr [],
      ar_weaknesses = JArr [], ar_improvement_suggestions = JNull, ar_ai_summary = JNull,
      ar_interview_questions = JArr [], ar_created_at = ''t0'', ar_updated_at = ''t0''\<rparr>"

definition demo_reports_db :: database where
  "demo_reports_db =
     \<lparr>resumes = [], job_descriptions = [],
      analysis_reports = [demo_report ''a1'' ''r1'' ''j1'', demo_report ''a2'' ''r2'' ''j1'']\<rparr>"

definition demo_file :: browser_file where
  "demo_file = \<lparr>f_name = ''my.cv.pdf'', f_type = ''application/pdf'', f_size = 48213\<rparr>"

definition demo_upload_env :: upload_env where
  "demo_upload_env =
     \<lparr>date_now = 1700000000000, upload_error = (\<lambda>k f. None), insert_error = (\<lambda>p. None),
      new_id = ''r9'', db_now = ''2023-11-14T22:13:20Z''\<rparr>"

definition demo_world :: world where
  "demo_world = \<lparr>bucket = [], tables = demo_reports_db\<rparr>"

definition demo_resume :: resume where
  "demo_resume =
     \<lparr>r_id = ''r1'', r_user_id = ''u1'', r_title = ''my.cv'', r_file_name = ''my.cv.pdf'',
      r_file_path = ''u1/1700000000000.pdf'', r_file_size = Some 48213,
      r_content_text = Some ''Ten years of proof engineering'',
      r_created_at = ''2023-11-14T22:13:20Z'', r_updated_at = ''2023-11-14T22:13:20Z''\<rparr>"

definition demo_job :: job_description where
  "demo_job =
     \<lparr>jd_id = ''j1'', jd_user_id = ''u1'', jd_title = ''Verification engineer'',
      jd_company = None, jd_description = ''Prove programs correct'',
      jd_requirements = Some ''Isabelle'',
      jd_created_at = ''2023-11-15T08:00:00Z'', jd_updated_at = ''2023-11-15T08:00:00Z''\<rparr>"

definition demo_db :: database where
  "demo_db =
     \<lparr>resumes = [demo_resume], job_descriptions = [demo_job], analysis_reports = []\<rparr>"

definition demo_body :: string where
  \<open>demo_body = ''{"resumeId":"r1","jobDescriptionId":"j1"}''\<close>

definition demo_answer :: string where
  "demo_answer = ''Here is my analysis: a strong resume.''"

text \<open>\<^verbatim>\<open>JSON.parse\<close> on the texts that occur in the sample runs.\<close>

definition demo_parse :: "string \<Rightarrow> json option" where
  "demo_parse s =
     (if s = demo_body
      then Some (JObj [(''resumeId'', JStr ''r1''), (''jobDescriptionId'', JStr ''j1'')])
      else if s = ''{}'' then Some (JObj [])
      else if s = ''null'' then Some JNull
      else None)"

text \<open>The texts of the natural numbers; no other number occurs in the sample runs.\<close>

definition demo_number_text :: "rat \<Rightarrow> string" where
  "demo_number_text n = dec (nat \<lfloor>n\<rfloor>)"

definition demo_env :: env where
  "demo_env =
     \<lparr>getUser = (\<lambda>t. if t = ''token-u1'' then \<lparr>au_user = Some ''u1'', au_error = None\<rparr>
                       else \<lparr>au_user = None, au_error = Some ''invalid JWT''\<rparr>),
      JSON_parse = demo_parse,
      Number_toString = demo_number_text,
      uuid_in = Some,
      db_error = (\<lambda>c. None),
      openai = (\<lambda>p. Ok_content (Some demo_answer)),
      gen_random_uuid = ''a9'',
      now = ''2023-11-15T09:30:00Z''\<rparr>"

definition demo_request :: request where
  "demo_request =
     \<lparr>req_method = ''POST'', req_authorization = Some ''Bearer token-u1'',
      req_body = demo_body\<rparr>"

text \<open>The database refuses the insert of a report and answers the lookups.\<close>

definition insert_refused :: "db_call \<Rightarrow> string option" where
  "insert_refused c =
     (case c of Insert_report p \<Rightarrow> Some ''connection refused'' | _ \<Rightarrow> None)"

section \<open>Row level security\<close>

lemma using_ok_owner:
  assumes "using_ok (Some a) t c owner" and "c \<noteq> INSERT"
  shows "owner = a"
proof -
  from assms(1) obtain p where p: "p \<in> set (policies_for t c)" "using_of p (Some a) owner"
    by (cases t) (auto simp: using_ok_def list_ex_iff)
  then have "p \<in> set policies" "pol_command p = c"
    by (auto simp: policies_for_def)
  with p(2) assms(2) show ?thesis
    by (auto simp: policies_def mk_using_def mk_check_def)
qed

lemma check_ok_owner:
  assumes "check_ok (Some a) t c owner"
  shows "owner = a"
proof -
  from assms obtain p where p: "p \<in> set (policies_for t c)" "check_of p (Some a) owner"
    by (cases t) (auto simp: check_ok_def list_ex_iff)
  then have "p \<in> set policies"
    by (auto simp: policies_for_def)
  with p(2) show ?thesis
    by (auto simp: policies_def mk_using_def mk_check_def)
qed

text \<open>
  On each of the four tables, the policies admit a select, insert, update or delete
  under the identity of user \<open>a\<close> only for rows whose \<^verbatim>\<open>user_id\<close> is \<open>a\<close> (for an
  update, both the row as it is and the row as written); a row owned by another user
  \<open>b\<close> is never admitted for \<open>a\<close>'s select, update or delete.
\<close>

theorem rls_owner_only:
  "(can_select (Some a) t owner \<longrightarrow> owner = a) \<and>
   (can_insert (Some a) t owner \<longrightarrow> owner = a) \<and>
   (can_update (Some a) t owner new_owner \<longrightarrow> owner = a \<and> new_owner = a) \<and>
   (can_delete (Some a) t owner \<longrightarrow> owner = a) \<and>
   (a \<noteq> b \<longrightarrow> \<not> can_select (Some a) t b \<and> \<not> can_update (Some a) t b new_owner \<and>
                \<not> can_delete (Some a) t b)"
proof -
  have s: "can_select (Some a) t x \<Longrightarrow> x = a" for x
    using using_ok_owner [of a t SELECT x] by (simp add: can_select_def)
  have d: "can_delete (Some a) t x \<Longrightarrow> x = a" for x
    using using_ok_owner [of a t DELETE x] by (simp add: can_delete_def)
  have i: "can_insert (Some a) t x \<Longrightarrow> x = a" for x
    using check_ok_owner [of a t INSERT x] by (simp add: can_insert_def)
  have u: "can_update (Some a) t x y \<Longrightarrow> x = a \<and> y = a" for x y
    unfolding can_update_def
    using using_ok_owner [of a t UPDATE x] check_ok_owner [of a t UPDATE y] by simp
  from s d i u show ?thesis by blast
qed

theorem rls_owner_only_witness:
  "can_select (Some ''u1'') Resumes ''u1'' \<and>
   can_insert (Some ''u1'') Analysis_reports ''u1'' \<and>
   can_update (Some ''u1'') Job_descriptions ''u1'' ''u1'' \<and>
   can_delete (Some ''u1'') Resumes ''u1'' \<and>
   ''u1'' \<noteq> ''u2'' \<and>
   \<not> can_select (Some ''u1'') Resumes ''u2'' \<and>
   \<not> can_update (Some ''u1'') Resumes ''u2'' ''u1'' \<and>
   \<not> can_delete (Some ''u1'') Resumes ''u2''"
proof -
  have ne: "''u1'' \<noteq> ''u2''" by simp
  have pos: "can_select (Some ''u1'') Resumes ''u1'' \<and>
     can_insert (Some ''u1'') Analysis_reports ''u1'' \<and>
     can_update (Some ''u1'') Job_descriptions ''u1'' ''u1'' \<and>
     can_delete (Some ''u1'') Resumes ''u1''"
    by (simp add: can_select_def can_insert_def can_update_def can_delete_def
        using_ok_def check_ok_def policies_for_def policies_def mk_using_def mk_check_def)
  from ne rls_owner_only [of "''u1''" Resumes "''u2''" "''u1''" "''u2''"] pos
  show ?thesis by blast
qed

section \<open>Cascading deletes\<close>

lemma refers_resume:
  "refers Cascade Resumes k ar = (ar_resume_id ar = k)"
  by (auto simp: refers_def foreign_keys_def ar_column_def)

lemma refers_job:
  "refers Cascade Job_descriptions k ar = (ar_job_description_id ar = k)"
  by (auto simp: refers_def foreign_keys_def ar_column_def)

lemma no_blocking_reference: "\<not> refers No_action t k ar"
  by (auto simp: refers_def foreign_keys_def)

text \<open>
  C7. Deleting a resume or a job description always goes through, and afterwards the
  parent row is gone and no report is left whose \<^verbatim>\<open>resume_id\<close> (respectively
  \<^verbatim>\<open>job_description_id\<close>) references it; reports that reference other rows stay.
\<close>

theorem delete_cascades:
  "(\<exists>db'. delete_row Resumes k db = Some db' \<and>
      (\<forall>r \<in> set (resumes db'). r_id r \<noteq> k) \<and>
      (\<forall>ar \<in> set (analysis_reports db'). ar_resume_id ar \<noteq> k) \<and>
      analysis_reports db' = filter (\<lambda>ar. ar_resume_id ar \<noteq> k) (analysis_reports db)) \<and>
   (\<exists>db'. delete_row Job_descriptions k db = Some db' \<and>
      (\<forall>j \<in> set (job_descriptions db'). jd_id j \<noteq> k) \<and>
      (\<forall>ar \<in> set (analysis_reports db'). ar_job_description_id ar \<noteq> k) \<and>
      analysis_reports db' =
        filter (\<lambda>ar. ar_job_description_id ar \<noteq> k) (analysis_reports db))"
  by (simp add: delete_row_def list_ex_iff no_blocking_reference remove_parent_def
      refers_resume refers_job)

theorem delete_cascades_witness:
  "delete_row Resumes ''r1'' demo_reports_db =
     Some (demo_reports_db\<lparr>analysis_reports := [demo_report ''a2'' ''r2'' ''j1'']\<rparr>) \<and>
   delete_row Job_descriptions ''j1'' demo_reports_db =
     Some (demo_reports_db\<lparr>analysis_reports := []\<rparr>)"
proof -
  have f: "analysis_reports demo_reports_db =
      [demo_report ''a1'' ''r1'' ''j1'', demo_report ''a2'' ''r2'' ''j1'']"
    by (simp add: demo_reports_db_def)
  from delete_cascades [of "''r1''" demo_reports_db]
  obtain d1 where
    d1: "delete_row Resumes ''r1'' demo_reports_db = Some d1"
        "analysis_reports d1 =
           filter (\<lambda>ar. ar_resume_id ar \<noteq> ''r1'') (analysis_reports demo_reports_db)"
    by blast
  from delete_cascades [of "''j1''" demo_reports_db]
  obtain d2 where
    d2: "delete_row Job_descriptions ''j1'' demo_reports_db = Some d2"
        "analysis_reports d2 =
           filter (\<lambda>ar. ar_job_description_id ar \<noteq> ''j1'') (analysis_reports demo_reports_db)"
    by blast
  have r1: "resumes d1 = [] \<and> job_descriptions d1 = []"
    using d1(1) by (auto simp: delete_row_def remove_parent_def demo_reports_db_def
        split: if_splits)
  have r2: "resumes d2 = [] \<and> job_descriptions d2 = []"
    using d2(1) by (auto simp: delete_row_def remove_parent_def demo_reports_db_def
        split: if_splits)
  have e1: "d1 = demo_reports_db\<lparr>analysis_reports := [demo_report ''a2'' ''r2'' ''j1'']\<rparr>"
    using d1(2) r1 by (simp add: f demo_report_def demo_reports_db_def)
  have e2: "d2 = demo_reports_db\<lparr>analysis_reports := []\<rparr>"
    using d2(2) r2 by (simp add: f demo_report_def demo_reports_db_def)
  from d1(1) d2(1) e1 e2 show ?thesis by simp
qed

subsection \<open>A cascade across owners\<close>

lemma own_row_admitted:
  "can_select (Some a) Resumes a \<and> can_delete (Some a) Resumes a \<and>
   can_insert (Some a) Analysis_reports a"
  by (simp add: can_select_def can_delete_def can_insert_def using_ok_def check_ok_def
      policies_for_def policies_def mk_using_def mk_check_def)

text \<open>
  C1. The policies do not keep one user's rows out of reach of another user's delete.
  For distinct users \<open>a\<close> and \<open>b\<close>: \<open>b\<close> may insert a report of its own that
  references a resume of \<open>a\<close> (the \<^verbatim>\<open>INSERT\<close> policy looks at the report's
  \<^verbatim>\<open>user_id\<close> only, and the foreign key only needs the resume to exist); when \<open>a\<close>
  then deletes that resume, which the policies admit, the cascade removes the report
  owned by \<open>b\<close>. For the commands themselves the policies do hold rows apart
  (\<open>rls_owner_only\<close> above).
\<close>

theorem cascade_crosses_owners:
  assumes "a \<noteq> b"
    and "r \<in> set (resumes db)" and "r_user_id r = a"
    and "j \<in> set (job_descriptions db)"
    and "ar_user_id rep = b"
    and "ar_resume_id rep = r_id r" and "ar_job_description_id rep = jd_id j"
    and "ar_id rep \<notin> ar_id ` set (analysis_reports db)"
  shows "\<exists>db1 db2.
      insert_report (Some b) rep db = Some db1 \<and>
      rep \<in> set (analysis_reports db1) \<and>
      delete_as (Some a) Resumes (r_id r) db1 = Some db2 \<and>
      rep \<notin> set (analysis_reports db2)"
proof -
  let ?db1 = "db\<lparr>analysis_reports := analysis_reports db @ [rep]\<rparr>"
  let ?db2 = "(remove_parent Resumes (r_id r) ?db1)
      \<lparr>analysis_reports :=
         filter (\<lambda>ar. \<not> refers Cascade Resumes (r_id r) ar) (analysis_reports ?db1)\<rparr>"
  have pol: "can_insert (Some b) Analysis_reports (ar_user_id rep)"
    using own_row_admitted [of b] assms(5) by simp
  have "\<forall>x \<in> set (analysis_reports db). ar_id x \<noteq> ar_id rep"
    using assms(8) by (metis imageI)
  then have pk: "\<not> key_exists Analysis_reports (ar_id rep) db"
    by (simp add: key_exists_def list_ex_iff)
  have kr: "key_exists Resumes (r_id r) db"
    using assms(2) by (auto simp: key_exists_def list_ex_iff)
  have kj: "key_exists Job_descriptions (jd_id j) db"
    using assms(4) by (auto simp: key_exists_def list_ex_iff)
  have fk: "\<not> list_ex (\<lambda>fk. fk_table fk = Analysis_reports \<and>
                 (case ar_column (fk_column fk) rep of
                    None \<Rightarrow> False
                  | Some k \<Rightarrow> \<not> key_exists (fk_references fk) k db))
               foreign_keys"
    using kr kj assms(6,7) by (simp add: foreign_keys_def ar_column_def)
  have ins: "insert_report (Some b) rep db = Some ?db1"
    using pol pk fk by (simp add: insert_report_def)
  have mem: "rep \<in> set (analysis_reports ?db1)"
    by simp
  have adm: "admitted_target (Some a) Resumes (r_id r) ?db1"
    using assms(2,3) own_row_admitted [of a]
    by (auto simp: admitted_target_def list_ex_iff)
  have del: "delete_as (Some a) Resumes (r_id r) ?db1 = Some ?db2"
    using adm by (simp add: delete_as_def delete_row_def list_ex_iff no_blocking_reference)
  have gone: "rep \<notin> set (analysis_reports ?db2)"
    using assms(6) by (simp add: refers_resume)
  from ins mem del gone show ?thesis by blast
qed

theorem cascade_crosses_owners_witness:
  "''u1'' \<noteq> ''u2'' \<and>
   r_user_id demo_resume = ''u1'' \<and>
   ar_user_id ((demo_report ''a1'' ''r1'' ''j1'')\<lparr>ar_user_id := ''u2''\<rparr>) = ''u2'' \<and>
   insert_report (Some ''u2'') ((demo_report ''a1'' ''r1'' ''j1'')\<lparr>ar_user_id := ''u2''\<rparr>)
       demo_db =
     Some (demo_db\<lparr>analysis_reports :=
             [(demo_report ''a1'' ''r1'' ''j1'')\<lparr>ar_user_id := ''u2''\<rparr>]\<rparr>) \<and>
   delete_as (Some ''u1'') Resumes ''r1''
       (demo_db\<lparr>analysis_reports :=
          [(demo_report ''a1'' ''r1'' ''j1'')\<lparr>ar_user_id := ''u2''\<rparr>]\<rparr>) =
     Some (demo_db\<lparr>resumes := [], analysis_reports := []\<rparr>)"
proof -
  let ?rep = "(demo_report ''a1'' ''r1'' ''j1'')\<lparr>ar_user_id := ''u2''\<rparr>"
  have ne: "''u1'' \<noteq> ''u2''" by simp
  have h: "demo_resume \<in> set (resumes demo_db)" "r_user_id demo_resume = ''u1''"
      "demo_job \<in> set (job_descriptions demo_db)"
      "ar_user_id ?rep = ''u2''"
      "ar_resume_id ?rep = r_id demo_resume" "ar_job_description_id ?rep = jd_id demo_job"
      "ar_id ?rep \<notin> ar_id ` set (analysis_reports demo_db)"
    by (simp_all add: demo_db_def demo_resume_def demo_job_def demo_report_def)
  have i: "insert_report (Some ''u2'') ?rep demo_db =
      Some (demo_db\<lparr>analysis_reports := [?rep]\<rparr>)"
    by (simp add: insert_report_def own_row_admitted key_exists_def foreign_keys_def
        ar_column_def demo_db_def demo_report_def demo_resume_def demo_job_def)
  have adm: "admitted_target (Some ''u1'') Resumes ''r1''
      (demo_db\<lparr>analysis_reports := [?rep]\<rparr>)"
    by (simp add: admitted_target_def demo_db_def demo_resume_def own_row_admitted)
  have d: "delete_as (Some ''u1'') Resumes ''r1'' (demo_db\<lparr>analysis_reports := [?rep]\<rparr>) =
      Some (demo_db\<lparr>resumes := [], analysis_reports := []\<rparr>)"
    using adm
    by (simp add: delete_as_def delete_row_def list_ex_iff no_blocking_reference
        remove_parent_def refers_resume demo_db_def demo_resume_def demo_report_def)
  from cascade_crosses_owners [OF ne h] ne h(2,4) i d show ?thesis by simp
qed

section \<open>The upload flow\<close>

lemma can_insert_self: "can_insert (Some u) Resumes u"
  by (simp add: can_insert_def check_ok_def policies_for_def policies_def mk_using_def
      mk_check_def)

lemma remove_extension_strips:
  "ext \<noteq> [] \<Longrightarrow> CHR ''.'' \<notin> set ext \<Longrightarrow> CHR ''/'' \<notin> set ext \<Longrightarrow>
   remove_extension (base @ ''.'' @ ext) = base"
  by (induction base) (auto simp: list_all_iff)

lemma remove_extension_none:
  "\<not> (\<exists>base ext. name = base @ ''.'' @ ext \<and> ext \<noteq> [] \<and>
                 CHR ''.'' \<notin> set ext \<and> CHR ''/'' \<notin> set ext) \<Longrightarrow>
   remove_extension name = name"
proof (induction name)
  case Nil
  then show ?case by simp
next
  case (Cons c cs)
  have 1: "\<not> (c = CHR ''.'' \<and> cs \<noteq> [] \<and>
              list_all (\<lambda>d. d \<noteq> CHR ''/'' \<and> d \<noteq> CHR ''.'') cs)"
  proof
    assume "c = CHR ''.'' \<and> cs \<noteq> [] \<and> list_all (\<lambda>d. d \<noteq> CHR ''/'' \<and> d \<noteq> CHR ''.'') cs"
    then have "c # cs = [] @ ''.'' @ cs \<and> cs \<noteq> [] \<and>
        CHR ''.'' \<notin> set cs \<and> CHR ''/'' \<notin> set cs"
      by (auto simp: list_all_iff)
    with Cons.prems show False by blast
  qed
  have 2: "\<not> (\<exists>base ext. cs = base @ ''.'' @ ext \<and> ext \<noteq> [] \<and>
                 CHR ''.'' \<notin> set ext \<and> CHR ''/'' \<notin> set ext)"
  proof
    assume "\<exists>base ext. cs = base @ ''.'' @ ext \<and> ext \<noteq> [] \<and>
                 CHR ''.'' \<notin> set ext \<and> CHR ''/'' \<notin> set ext"
    then obtain base ext where "cs = base @ ''.'' @ ext" "ext \<noteq> []"
        "CHR ''.'' \<notin> set ext" "CHR ''/'' \<notin> set ext"
      by blast
    then have "c # cs = (c # base) @ ''.'' @ ext \<and> ext \<noteq> [] \<and>
        CHR ''.'' \<notin> set ext \<and> CHR ''/'' \<notin> set ext"
      by simp
    with Cons.prems show False by blast
  qed
  from 1 2 Cons.IH show ?case by simp
qed

lemma split_on_nonempty: "split_on c xs \<noteq> []"
  by (induction xs) (auto split: list.splits)

lemma split_on_no_sep: "c \<notin> set xs \<Longrightarrow> split_on c xs = [xs]"
  by (induction xs) auto

lemma split_on_append:
  "\<exists>ys. ys \<noteq> [] \<and> split_on c (a @ c # b) = ys @ split_on c b"
proof (induction a)
  case Nil
  have "split_on c ([] @ c # b) = [[]] @ split_on c b" by simp
  then show ?case by blast
next
  case (Cons x a)
  then obtain y ys where ys: "split_on c (a @ c # b) = (y # ys) @ split_on c b"
    by (metis neq_Nil_conv)
  show ?case
  proof (cases "x = c")
    case True
    with ys have "split_on c ((x # a) @ c # b) = ([] # y # ys) @ split_on c b" by simp
    then show ?thesis by blast
  next
    case False
    with ys have "split_on c ((x # a) @ c # b) = ((x # y) # ys) @ split_on c b" by simp
    then show ?thesis by blast
  qed
qed

lemma last_split_on_append: "last (split_on c (a @ c # b)) = last (split_on c b)"
proof -
  obtain ys where "split_on c (a @ c # b) = ys @ split_on c b"
    using split_on_append by blast
  then show ?thesis by (simp add: split_on_nonempty)
qed

lemma fileExt_ext: "CHR ''.'' \<notin> set ext \<Longrightarrow> fileExt (base @ ''.'' @ ext) = ext"
  using last_split_on_append [of "CHR ''.''" base ext]
  by (simp add: fileExt_def split_on_no_sep)

text \<open>
  C4. A file whose MIME type is not one of the two allowed types, or whose size exceeds
  \<open>5 * 1024 * 1024\<close> bytes, is turned away before any call to the storage service or
  the database: the run makes no call, and the bucket and the tables are as before.
\<close>

theorem upload_rejected:
  assumes "f_type f \<notin> set allowedTypes \<or> f_size f > 5 * 1024 * 1024"
  shows "calls (handleFileUpload env w (Some f) user) = [] \<and>
         after (handleFileUpload env w (Some f) user) = w"
proof (cases user)
  case None
  then show ?thesis by (simp add: handleFileUpload_def)
next
  case (Some uid)
  show ?thesis
  proof (cases "f_type f \<in> set allowedTypes")
    case False
    with Some show ?thesis by (simp add: handleFileUpload_def)
  next
    case True
    with assms have "f_size f > 5 * 1024 * 1024" by simp
    with Some True show ?thesis by (simp add: handleFileUpload_def)
  qed
qed

theorem upload_rejected_witness:
  "f_size (demo_file\<lparr>f_size := 5242881\<rparr>) > 5 * 1024 * 1024 \<and>
   calls (handleFileUpload demo_upload_env demo_world
            (Some (demo_file\<lparr>f_size := 5242881\<rparr>)) (Some ''u1'')) = [] \<and>
   after (handleFileUpload demo_upload_env demo_world
            (Some (demo_file\<lparr>f_size := 5242881\<rparr>)) (Some ''u1'')) = demo_world \<and>
   f_type (demo_file\<lparr>f_type := ''image/png''\<rparr>) \<notin> set allowedTypes \<and>
   calls (handleFileUpload demo_upload_env demo_world
            (Some (demo_file\<lparr>f_type := ''image/png''\<rparr>)) (Some ''u1'')) = []"
proof -
  have big: "f_size (demo_file\<lparr>f_size := 5242881\<rparr>) > 5 * 1024 * 1024"
    by simp
  have png: "f_type (demo_file\<lparr>f_type := ''image/png''\<rparr>) \<notin> set allowedTypes"
    by (simp add: allowedTypes_def)
  from big png
    upload_rejected [of "demo_file\<lparr>f_size := 5242881\<rparr>" demo_upload_env demo_world
      "Some ''u1''"]
    upload_rejected [of "demo_file\<lparr>f_type := ''image/png''\<rparr>" demo_upload_env demo_world
      "Some ''u1''"]
  show ?thesis by blast
qed

lemma upload_success_conditions:
  assumes "success_toast \<in> set (ui (handleFileUpload env w (Some f) (Some uid)))"
  shows "f_type f \<in> set allowedTypes \<and> \<not> f_size f > 5 * 1024 * 1024 \<and>
         upload_error env (storage_key uid (date_now env) (f_name f)) f = None \<and>
         insert_error env
           \<lparr>ri_user_id = uid, ri_title = remove_extension (f_name f),
            ri_file_name = f_name f,
            ri_file_path = storage_key uid (date_now env) (f_name f),
            ri_file_size = f_size f\<rparr> = None"
proof -
  let ?k = "storage_key uid (date_now env) (f_name f)"
  let ?row = "\<lparr>ri_user_id = uid, ri_title = remove_extension (f_name f),
            ri_file_name = f_name f, ri_file_path = ?k, ri_file_size = f_size f\<rparr>"
  have t: "f_type f \<in> set allowedTypes"
    using assms by (cases "f_type f \<in> set allowedTypes")
      (simp_all add: handleFileUpload_def success_toast_def)
  have z: "\<not> f_size f > 5 * 1024 * 1024"
    using assms t by (cases "f_size f > 5 * 1024 * 1024")
      (simp_all add: handleFileUpload_def success_toast_def)
  have u: "upload_error env ?k f = None"
    using assms t z by (cases "upload_error env ?k f")
      (simp_all add: handleFileUpload_def success_toast_def Let_def)
  have i: "client_insert_error env uid ?row = None"
    using assms t z u by (cases "client_insert_error env uid ?row")
      (simp_all add: handleFileUpload_def success_toast_def Let_def)
  then have "insert_error env ?row = None"
    by (simp add: client_insert_error_def can_insert_self)
  with t z u show ?thesis by simp
qed

lemma upload_accepted:
  assumes "f_type f \<in> set allowedTypes" "\<not> f_size f > 5 * 1024 * 1024"
    "upload_error env (storage_key uid (date_now env) (f_name f)) f = None"
    "insert_error env
           \<lparr>ri_user_id = uid, ri_title = remove_extension (f_name f),
            ri_file_name = f_name f,
            ri_file_path = storage_key uid (date_now env) (f_name f),
            ri_file_size = f_size f\<rparr> = None"
  shows "handleFileUpload env w (Some f) (Some uid) =
     \<lparr>calls = [Storage_upload (storage_key uid (date_now env) (f_name f)) f,
               Db_insert_resume \<lparr>ri_user_id = uid, ri_title = remove_extension (f_name f),
                  ri_file_name = f_name f,
                  ri_file_path = storage_key uid (date_now env) (f_name f),
                  ri_file_size = f_size f\<rparr>,
               Load_resumes],
      ui = [Set_is_uploading True, success_toast, Set_is_uploading False],
      after = \<lparr>bucket = bucket w @ [(storage_key uid (date_now env) (f_name f), f)],
               tables = (tables w)\<lparr>resumes := resumes (tables w) @
                 [\<lparr>r_id = new_id env, r_user_id = uid,
                   r_title = remove_extension (f_name f),
                   r_file_name = f_name f,
                   r_file_path = storage_key uid (date_now env) (f_name f),
                   r_file_size = Some (int (f_size f)), r_content_text = None,
                   r_created_at = db_now env, r_updated_at = db_now env\<rparr>]\<rparr>\<rparr>\<rparr>"
  using assms
  by (simp add: handleFileUpload_def Let_def client_insert_error_def can_insert_self
      stored_resume_def)

text \<open>
  C10. When an upload ends with the success toast, exactly one row has been added to
  \<^verbatim>\<open>resumes\<close> and one blob to the bucket: the row's \<^verbatim>\<open>file_name\<close> is the file's
  name, its \<^verbatim>\<open>file_path\<close> is the key the blob was stored under, which is the user's
  id, a slash, the clock reading, a dot and the last dot-separated piece of the name, and
  its \<^verbatim>\<open>title\<close> is the name without its final extension: for a name
  \<open>base.ext\<close>, with \<open>ext\<close> non-empty and free of dots and slashes, the title is
  \<open>base\<close> and the key ends in \<open>.ext\<close>; a name of no such form is its own title.
\<close>

theorem upload_row:
  assumes "success_toast \<in> set (ui (handleFileUpload env w (Some f) (Some uid)))"
  shows "\<exists>row.
      resumes (tables (after (handleFileUpload env w (Some f) (Some uid)))) =
        resumes (tables w) @ [row] \<and>
      bucket (after (handleFileUpload env w (Some f) (Some uid))) =
        bucket w @ [(r_file_path row, f)] \<and>
      r_user_id row = uid \<and>
      r_file_name row = f_name f \<and>
      r_file_path row = uid @ ''/'' @ dec (date_now env) @ ''.'' @ fileExt (f_name f) \<and>
      r_title row = remove_extension (f_name f) \<and>
      (\<forall>base ext. f_name f = base @ ''.'' @ ext \<and> ext \<noteq> [] \<and>
          CHR ''.'' \<notin> set ext \<and> CHR ''/'' \<notin> set ext \<longrightarrow>
          r_title row = base \<and>
          r_file_path row = uid @ ''/'' @ dec (date_now env) @ ''.'' @ ext) \<and>
      (\<not> (\<exists>base ext. f_name f = base @ ''.'' @ ext \<and> ext \<noteq> [] \<and>
          CHR ''.'' \<notin> set ext \<and> CHR ''/'' \<notin> set ext) \<longrightarrow>
          r_title row = f_name f)"
proof -
  let ?k = "storage_key uid (date_now env) (f_name f)"
  let ?row = "\<lparr>r_id = new_id env, r_user_id = uid,
                   r_title = remove_extension (f_name f),
                   r_file_name = f_name f, r_file_path = ?k,
                   r_file_size = Some (int (f_size f)), r_content_text = None,
                   r_created_at = db_now env, r_updated_at = db_now env\<rparr>"
  from upload_success_conditions [OF assms]
  have run: "handleFileUpload env w (Some f) (Some uid) =
     \<lparr>calls = [Storage_upload ?k f,
               Db_insert_resume \<lparr>ri_user_id = uid, ri_title = remove_extension (f_name f),
                  ri_file_name = f_name f, ri_file_path = ?k, ri_file_size = f_size f\<rparr>,
               Load_resumes],
      ui = [Set_is_uploading True, success_toast, Set_is_uploading False],
      after = \<lparr>bucket = bucket w @ [(?k, f)],
               tables = (tables w)\<lparr>resumes := resumes (tables w) @ [?row]\<rparr>\<rparr>\<rparr>"
    by (intro upload_accepted) simp_all
  have a: "resumes (tables (after (handleFileUpload env w (Some f) (Some uid)))) =
        resumes (tables w) @ [?row]"
    by (simp add: run)
  have b: "bucket (after (handleFileUpload env w (Some f) (Some uid))) =
        bucket w @ [(r_file_path ?row, f)]"
    by (simp add: run)
  have c: "r_file_path ?row = uid @ ''/'' @ dec (date_now env) @ ''.'' @ fileExt (f_name f)"
    by (simp add: storage_key_def)
  have d: "\<forall>base ext. f_name f = base @ ''.'' @ ext \<and> ext \<noteq> [] \<and>
          CHR ''.'' \<notin> set ext \<and> CHR ''/'' \<notin> set ext \<longrightarrow>
          r_title ?row = base \<and>
          r_file_path ?row = uid @ ''/'' @ dec (date_now env) @ ''.'' @ ext"
  proof (intro allI impI)
    fix base ext
    assume h: "f_name f = base @ ''.'' @ ext \<and> ext \<noteq> [] \<and>
          CHR ''.'' \<notin> set ext \<and> CHR ''/'' \<notin> set ext"
    then have "remove_extension (f_name f) = base" "fileExt (f_name f) = ext"
      using remove_extension_strips [of ext base] fileExt_ext [of ext base] by simp_all
    then show "r_title ?row = base \<and>
          r_file_path ?row = uid @ ''/'' @ dec (date_now env) @ ''.'' @ ext"
      by (simp add: storage_key_def)
  qed
  have e: "\<not> (\<exists>base ext. f_name f = base @ ''.'' @ ext \<and> ext \<noteq> [] \<and>
          CHR ''.'' \<notin> set ext \<and> CHR ''/'' \<notin> set ext) \<longrightarrow>
          r_title ?row = f_name f"
    using remove_extension_none [of "f_name f"] by simp
  have s1: "r_user_id ?row = uid" by simp
  have s2: "r_file_name ?row = f_name f" by simp
  have s3: "r_title ?row = remove_extension (f_name f)" by simp
  from a b s1 s2 c s3 d e show ?thesis by blast
qed

lemma demo_upload_run:
  "handleFileUpload demo_upload_env demo_world (Some demo_file) (Some ''u1'') =
     \<lparr>calls = [Storage_upload ''u1/1700000000000.pdf'' demo_file,
               Db_insert_resume \<lparr>ri_user_id = ''u1'', ri_title = ''my.cv'',
                  ri_file_name = ''my.cv.pdf'', ri_file_path = ''u1/1700000000000.pdf'',
                  ri_file_size = 48213\<rparr>,
               Load_resumes],
      ui = [Set_is_uploading True, success_toast, Set_is_uploading False],
      after = \<lparr>bucket = [(''u1/1700000000000.pdf'', demo_file)],
               tables = demo_reports_db\<lparr>resumes :=
                 [\<lparr>r_id = ''r9'', r_user_id = ''u1'', r_title = ''my.cv'',
                   r_file_name = ''my.cv.pdf'', r_file_path = ''u1/1700000000000.pdf'',
                   r_file_size = Some 48213, r_content_text = None,
                   r_created_at = ''2023-11-14T22:13:20Z'',
                   r_updated_at = ''2023-11-14T22:13:20Z''\<rparr>]\<rparr>\<rparr>\<rparr>"
proof -
  have k: "storage_key ''u1'' 1700000000000 ''my.cv.pdf'' = ''u1/1700000000000.pdf''"
    by (simp add: storage_key_def fileExt_def dec.simps digit_def)
  have t: "remove_extension ''my.cv.pdf'' = ''my.cv''" by simp
  show ?thesis
    by (simp add: handleFileUpload_def Let_def demo_upload_env_def demo_world_def demo_file_def
        allowedTypes_def client_insert_error_def can_insert_self stored_resume_def k t
        demo_reports_db_def)
qed


theorem upload_row_witness:
  "success_toast \<in> set (ui (handleFileUpload demo_upload_env demo_world (Some demo_file)
                               (Some ''u1''))) \<and>
   (\<exists>row. resumes (tables (after (handleFileUpload demo_upload_env demo_world
                                    (Some demo_file) (Some ''u1'')))) = [row] \<and>
      r_title row = ''my.cv'' \<and> r_file_name row = ''my.cv.pdf'' \<and>
      r_file_path row = ''u1/1700000000000.pdf'' \<and>
      bucket (after (handleFileUpload demo_upload_env demo_world
                       (Some demo_file) (Some ''u1''))) =
        [(''u1/1700000000000.pdf'', demo_file)])"
proof -
  have h: "success_toast \<in> set (ui (handleFileUpload demo_upload_env demo_world
      (Some demo_file) (Some ''u1'')))"
    by (simp add: demo_upload_run)
  from upload_row [OF h] obtain row where
    r: "resumes (tables (after (handleFileUpload demo_upload_env demo_world
          (Some demo_file) (Some ''u1'')))) = resumes (tables demo_world) @ [row]"
       "bucket (after (handleFileUpload demo_upload_env demo_world
          (Some demo_file) (Some ''u1''))) = bucket demo_world @ [(r_file_path row, demo_file)]"
       "r_file_name row = f_name demo_file"
       "\<forall>base ext. f_name demo_file = base @ ''.'' @ ext \<and> ext \<noteq> [] \<and>
          CHR ''.'' \<notin> set ext \<and> CHR ''/'' \<notin> set ext \<longrightarrow>
          r_title row = base \<and>
          r_file_path row = ''u1'' @ ''/'' @ dec (date_now demo_upload_env) @ ''.'' @ ext"
    by blast
  have n: "f_name demo_file = ''my.cv'' @ ''.'' @ ''pdf'' \<and> ''pdf'' \<noteq> [] \<and>
      CHR ''.'' \<notin> set ''pdf'' \<and> CHR ''/'' \<notin> set ''pdf''"
    by (simp add: demo_file_def)
  from r(4) [rule_format, OF n] have t: "r_title row = ''my.cv''"
      "r_file_path row = ''u1'' @ ''/'' @ dec (date_now demo_upload_env) @ ''.'' @ ''pdf''"
    by simp_all
  have dk: "dec 1700000000000 = ''1700000000000''"
    by (simp add: dec.simps digit_def)
  have p: "r_file_path row = ''u1/1700000000000.pdf''"
    using t(2) by (simp add: demo_upload_env_def dk)
  from h r(1,2,3) t(1) p show ?thesis
    by (simp add: demo_world_def demo_reports_db_def demo_file_def)
qed

section \<open>The analysis endpoint\<close>

lemma thrown_simps [simp]:
  "response (thrown x d tr) = error_response x"
  "database_after (thrown x d tr) = d"
  "effects (thrown x d tr) = tr"
  by (simp_all add: thrown_def)

lemma single_Some: "single xs = Some x \<Longrightarrow> xs = [x]"
  by (cases xs rule: single.cases) simp_all

lemma select_resume_Some:
  assumes "select_resume e d v uid = Some r"
  shows "filter_key e v = Some (r_id r) \<and>
         filter (\<lambda>x. r_id x = r_id r \<and> r_user_id x = uid) (resumes d) = [r] \<and>
         r \<in> set (resumes d) \<and> r_user_id r = uid \<and>
         db_error e (Select_resume v uid) = None"
proof -
  from assms have n: "db_error e (Select_resume v uid) = None"
    by (cases "db_error e (Select_resume v uid)") (simp_all add: select_resume_def)
  with assms obtain k where k: "filter_key e v = Some k"
    by (cases "filter_key e v") (simp_all add: select_resume_def)
  with assms n have f: "filter (\<lambda>r. r_id r = k \<and> r_user_id r = uid) (resumes d) = [r]"
    by (simp add: select_resume_def single_Some)
  then have "r \<in> set (filter (\<lambda>r. r_id r = k \<and> r_user_id r = uid) (resumes d))"
    by simp
  then have m: "r \<in> set (resumes d)" "r_id r = k" "r_user_id r = uid"
    by simp_all
  with f k n show ?thesis by simp
qed

lemma select_job_description_Some:
  assumes "select_job_description e d v uid = Some j"
  shows "filter_key e v = Some (jd_id j) \<and>
         filter (\<lambda>x. jd_id x = jd_id j \<and> jd_user_id x = uid) (job_descriptions d) = [j] \<and>
         j \<in> set (job_descriptions d) \<and> jd_user_id j = uid \<and>
         db_error e (Select_job_description v uid) = None"
proof -
  from assms have n: "db_error e (Select_job_description v uid) = None"
    by (cases "db_error e (Select_job_description v uid)")
      (simp_all add: select_job_description_def)
  with assms obtain k where k: "filter_key e v = Some k"
    by (cases "filter_key e v") (simp_all add: select_job_description_def)
  with assms n have
    f: "filter (\<lambda>j. jd_id j = k \<and> jd_user_id j = uid) (job_descriptions d) = [j]"
    by (simp add: select_job_description_def single_Some)
  then have "j \<in> set (filter (\<lambda>j. jd_id j = k \<and> jd_user_id j = uid) (job_descriptions d))"
    by simp
  then have m: "j \<in> set (job_descriptions d)" "jd_id j = k" "jd_user_id j = uid"
    by simp_all
  with f k n show ?thesis by simp
qed

lemma save_analysis_fetch:
  "Openai_fetch p \<in> set (effects (save_analysis e d tr uid rv jv r j a)) \<longleftrightarrow>
   Openai_fetch p \<in> set tr"
  by (cases "db_error e (Insert_report (insert_payload uid rv jv a))")
    (simp_all add: save_analysis_def Let_def)

lemma analyze_fetch:
  "Openai_fetch p \<in> set (effects (analyze e d tr uid rv jv r j)) \<longleftrightarrow>
   Openai_fetch p \<in> set tr \<or> p = analysisPrompt r j"
  by (cases "openai e (analysisPrompt r j)")
    (auto simp: analyze_def Let_def save_analysis_fetch)

lemma get_rows_fetch:
  assumes "Openai_fetch p \<in> set (effects (get_rows e d tr uid rv jv))"
    and "Openai_fetch p \<notin> set tr"
  shows "\<exists>r j. select_resume e d rv uid = Some r \<and>
           select_job_description e d jv uid = Some j \<and>
           p = analysisPrompt r j \<and>
           get_rows e d tr uid rv jv =
             analyze e d (tr @ [Db (Select_resume rv uid), Db (Select_job_description jv uid)])
               uid rv jv r j"
proof (cases "select_resume e d rv uid")
  case None
  with assms show ?thesis by (simp add: get_rows_def)
next
  case (Some r)
  note r = this
  show ?thesis
  proof (cases "select_job_description e d jv uid")
    case None
    with r assms show ?thesis by (simp add: get_rows_def)
  next
    case (Some j)
    with r have run: "get_rows e d tr uid rv jv =
        analyze e d (tr @ [Db (Select_resume rv uid), Db (Select_job_description jv uid)])
          uid rv jv r j"
      by (simp add: get_rows_def)
    with assms have "p = analysisPrompt r j"
      by (simp add: analyze_fetch)
    with r Some run show ?thesis by simp
  qed
qed

lemma read_ids_fetch:
  assumes "Openai_fetch p \<in> set (effects (read_ids e d tr uid req))"
    and "Openai_fetch p \<notin> set tr"
  shows "\<exists>b rv jv. JSON_parse e (req_body req) = Some b \<and> b \<noteq> JNull \<and>
           required_ids b = Some (rv, jv) \<and>
           read_ids e d tr uid req = get_rows e d tr uid rv jv"
proof (cases "JSON_parse e (req_body req)")
  case None
  with assms show ?thesis by (simp add: read_ids_def)
next
  case (Some b)
  note b = this
  show ?thesis
  proof (cases "b = JNull")
    case True
    with b assms show ?thesis by (simp add: read_ids_def)
  next
    case False
    show ?thesis
    proof (cases "required_ids b")
      case None
      with b False assms show ?thesis by (simp add: read_ids_def)
    next
      case (Some ids)
      then obtain rv jv where "required_ids b = Some (rv, jv)" by (cases ids) simp
      with b False show ?thesis by (simp add: read_ids_def)
    qed
  qed
qed

lemma authenticate_fetch:
  assumes "Openai_fetch p \<in> set (effects (authenticate e d req))"
  shows "\<exists>h uid. req_authorization req = Some h \<and> h \<noteq> [] \<and>
           au_user (getUser e (remove_first ''Bearer '' h)) = Some uid \<and>
           au_error (getUser e (remove_first ''Bearer '' h)) = None \<and>
           authenticate e d req =
             read_ids e d [Auth_get_user (remove_first ''Bearer '' h)] uid req"
proof (cases "req_authorization req")
  case None
  with assms show ?thesis by (simp add: authenticate_def)
next
  case (Some h)
  note h = this
  show ?thesis
  proof (cases "h = []")
    case True
    with h assms show ?thesis by (simp add: authenticate_def)
  next
    case False
    show ?thesis
    proof (cases "au_user (getUser e (remove_first ''Bearer '' h))")
      case None
      with h False assms show ?thesis by (simp add: authenticate_def Let_def)
    next
      case (Some uid)
      show ?thesis
      proof (cases "au_error (getUser e (remove_first ''Bearer '' h)) = None")
        case True
        with h False Some show ?thesis by (simp add: authenticate_def Let_def)
      next
        case ne: False
        with h False Some assms show ?thesis by (simp add: authenticate_def Let_def)
      qed
    qed
  qed
qed

lemma serve_fetch:
  assumes "Openai_fetch p \<in> set (effects (serve e d req))"
  shows "\<exists>h uid b rv jv r j.
           req_method req \<noteq> ''OPTIONS'' \<and>
           req_authorization req = Some h \<and> h \<noteq> [] \<and>
           au_user (getUser e (remove_first ''Bearer '' h)) = Some uid \<and>
           au_error (getUser e (remove_first ''Bearer '' h)) = None \<and>
           JSON_parse e (req_body req) = Some b \<and> b \<noteq> JNull \<and>
           required_ids b = Some (rv, jv) \<and>
           select_resume e d rv uid = Some r \<and>
           select_job_description e d jv uid = Some j \<and>
           p = analysisPrompt r j \<and>
           serve e d req =
             analyze e d [Auth_get_user (remove_first ''Bearer '' h),
                          Db (Select_resume rv uid), Db (Select_job_description jv uid)]
               uid rv jv r j"
proof -
  have m: "req_method req \<noteq> ''OPTIONS''"
    using assms by (cases "req_method req = ''OPTIONS''") (simp_all add: serve_def)
  then have s: "serve e d req = authenticate e d req"
    by (simp add: serve_def)
  with assms authenticate_fetch [of p e d req] obtain h uid where
    h: "req_authorization req = Some h" "h \<noteq> []"
       "au_user (getUser e (remove_first ''Bearer '' h)) = Some uid"
       "au_error (getUser e (remove_first ''Bearer '' h)) = None"
       "authenticate e d req =
          read_ids e d [Auth_get_user (remove_first ''Bearer '' h)] uid req"
    by auto
  let ?t1 = "[Auth_get_user (remove_first ''Bearer '' h)]"
  have f1: "Openai_fetch p \<in> set (effects (read_ids e d ?t1 uid req))"
    using assms s h(5) by simp
  have n1: "Openai_fetch p \<notin> set ?t1" by simp
  from read_ids_fetch [OF f1 n1] obtain b rv jv where
    b: "JSON_parse e (req_body req) = Some b" "b \<noteq> JNull"
       "required_ids b = Some (rv, jv)"
       "read_ids e d ?t1 uid req = get_rows e d ?t1 uid rv jv"
    by blast
  have f2: "Openai_fetch p \<in> set (effects (get_rows e d ?t1 uid rv jv))"
    using f1 b(4) by simp
  from get_rows_fetch [OF f2 n1] obtain r j where
    r: "select_resume e d rv uid = Some r"
       "select_job_description e d jv uid = Some j"
       "p = analysisPrompt r j"
       "get_rows e d ?t1 uid rv jv =
          analyze e d (?t1 @ [Db (Select_resume rv uid), Db (Select_job_description jv uid)])
            uid rv jv r j"
    by blast
  have run: "serve e d req =
      analyze e d [Auth_get_user (remove_first ''Bearer '' h),
                   Db (Select_resume rv uid), Db (Select_job_description jv uid)]
        uid rv jv r j"
    using s h(5) b(4) r(4) by simp
  from m h(1-4) b(1-3) r(1-3) run show ?thesis by blast
qed

lemma required_ids_Some:
  assumes "required_ids b = Some (rv, jv)"
  shows "get_prop b ''resumeId'' = Some rv \<and> get_prop b ''jobDescriptionId'' = Some jv"
proof (cases "get_prop b ''resumeId''")
  case None
  with assms show ?thesis by (simp add: required_ids_def)
next
  case (Some x)
  note x = this
  show ?thesis
  proof (cases "get_prop b ''jobDescriptionId''")
    case None
    with x assms show ?thesis by (simp add: required_ids_def)
  next
    case (Some y)
    with x assms show ?thesis by (simp add: required_ids_def split: if_splits)
  qed
qed

text \<open>
  C8. Whenever the handler calls the model, the prompt it sends is the fixed template
  below, filled from the one resume and the one job description that the request's
  \<^verbatim>\<open>resumeId\<close> and \<^verbatim>\<open>jobDescriptionId\<close> name among the rows of the authenticated
  caller: the resume's \<^verbatim>\<open>content_text\<close> when that is present and non-empty and the
  fixed placeholder when it is absent (or empty), then the job's title, company,
  description and requirements (company and requirements replaced by
  \<^verbatim>\<open>Not specified\<close> when null or empty).
\<close>

theorem prompt_built:
  assumes \<open>Openai_fetch p \<in> set (effects (serve e d req))\<close>
  shows \<open>\<exists>h uid b rv jv r j.
      req_authorization req = Some h \<and>
      au_user (getUser e (remove_first ''Bearer '' h)) = Some uid \<and>
      JSON_parse e (req_body req) = Some b \<and>
      get_prop b ''resumeId'' = Some rv \<and>
      get_prop b ''jobDescriptionId'' = Some jv \<and>
      filter_key e rv = Some (r_id r) \<and>
      filter_key e jv = Some (jd_id j) \<and>
      filter (\<lambda>x. r_id x = r_id r \<and> r_user_id x = uid) (resumes d) = [r] \<and>
      filter (\<lambda>x. jd_id x = jd_id j \<and> jd_user_id x = uid) (job_descriptions d) = [j] \<and>
      p =
         (''\<newline>'' @
         ''Analyze the following resume against the job description and provide a comprehensive analysis.\<newline>'' @
         ''\<newline>'' @
         ''RESUME:\<newline>'') @
         (case r_content_text r of
            None \<Rightarrow> ''Resume content would be extracted from the uploaded file''
          | Some t \<Rightarrow>
              if t = [] then ''Resume content would be extracted from the uploaded file'' else t) @
         (''\<newline>'' @
         ''\<newline>'' @
         ''JOB DESCRIPTION:\<newline>'' @
         ''Title: '') @
         jd_title j @
         (''\<newline>'' @
         ''Company: '') @
         (case jd_company j of
            None \<Rightarrow> ''Not specified''
          | Some t \<Rightarrow> if t = [] then ''Not specified'' else t) @
         (''\<newline>'' @
         ''Description: '') @
         jd_description j @
         (''\<newline>'' @
         ''Requirements: '') @
         (case jd_requirements j of
            None \<Rightarrow> ''Not specified''
          | Some t \<Rightarrow> if t = [] then ''Not specified'' else t) @
         (''\<newline>'' @
         ''\<newline>'' @
         ''Please provide a detailed analysis in the following JSON format:\<newline>'' @
         ''{\<newline>'' @
         ''  "relevance_score": <number between 0-100>,\<newline>'' @
         ''  "missing_skills": ["skill1", "skill2"],\<newline>'' @
         ''  "strengths": ["strength1", "strength2"],\<newline>'' @
         ''  "weaknesses": ["weakness1", "weakness2"],\<newline>'' @
         ''  "improvement_suggestions": "Detailed suggestions for improvement",\<newline>'' @
         ''  "ai_summary": "Brief summary of the resume",\<newline>'' @
         ''  "interview_questions": ["question1", "question2", "question3", "question4", "question5"]\<newline>'' @
         ''}\<newline>'' @
         ''\<newline>'' @
         ''Focus on:\<newline>'' @
         ''1. ATS compatibility and keyword matching\<newline>'' @
         ''2. Skills alignment with job requirements\<newline>'' @
         ''3. Experience relevance\<newline>'' @
         ''4. Areas for improvement\<newline>'' @
         ''5. Predicted interview questions based on the role\<newline>'' @
         ''\<newline>'' @
         ''Provide actionable, specific feedback.'')\<close>
proof -
  from serve_fetch [OF assms] obtain h uid b rv jv r j where
    f: "req_authorization req = Some h"
       "au_user (getUser e (remove_first ''Bearer '' h)) = Some uid"
       "JSON_parse e (req_body req) = Some b"
       "required_ids b = Some (rv, jv)"
       "select_resume e d rv uid = Some r"
       "select_job_description e d jv uid = Some j"
       "p = analysisPrompt r j"
    by blast
  note ids = required_ids_Some [OF f(4)]
  note sr = select_resume_Some [OF f(5)]
  note sj = select_job_description_Some [OF f(6)]
  have 1: "get_prop b ''resumeId'' = Some rv" using ids by simp
  have 2: "get_prop b ''jobDescriptionId'' = Some jv" using ids by simp
  have 3: "filter_key e rv = Some (r_id r)" using sr by simp
  have 4: "filter_key e jv = Some (jd_id j)" using sj by simp
  have 5: "filter (\<lambda>x. r_id x = r_id r \<and> r_user_id x = uid) (resumes d) = [r]"
    using sr by simp
  have 6: "filter (\<lambda>x. jd_id x = jd_id j \<and> jd_user_id x = uid) (job_descriptions d) = [j]"
    using sj by simp
  have 7: \<open>p =
         (''\<newline>'' @
         ''Analyze the following resume against the job description and provide a comprehensive analysis.\<newline>'' @
         ''\<newline>'' @
         ''RESUME:\<newline>'') @
         (case r_content_text r of
            None \<Rightarrow> ''Resume content would be extracted from the uploaded file''
          | Some t \<Rightarrow>
              if t = [] then ''Resume content would be extracted from the uploaded file'' else t) @
         (''\<newline>'' @
         ''\<newline>'' @
         ''JOB DESCRIPTION:\<newline>'' @
         ''Title: '') @
         jd_title j @
         (''\<newline>'' @
         ''Company: '') @
         (case jd_company j of
            None \<Rightarrow> ''Not specified''
          | Some t \<Rightarrow> if t = [] then ''Not specified'' else t) @
         (''\<newline>'' @
         ''Description: '') @
         jd_description j @
         (''\<newline>'' @
         ''Requirements: '') @
         (case jd_requirements j of
            None \<Rightarrow> ''Not specified''
          | Some t \<Rightarrow> if t = [] then ''Not specified'' else t) @
         (''\<newline>'' @
         ''\<newline>'' @
         ''Please provide a detailed analysis in the following JSON format:\<newline>'' @
         ''{\<newline>'' @
         ''  "relevance_score": <number between 0-100>,\<newline>'' @
         ''  "missing_skills": ["skill1", "skill2"],\<newline>'' @
         ''  "strengths": ["strength1", "strength2"],\<newline>'' @
         ''  "weaknesses": ["weakness1", "weakness2"],\<newline>'' @
         ''  "improvement_suggestions": "Detailed suggestions for improvement",\<newline>'' @
         ''  "ai_summary": "Brief summary of the resume",\<newline>'' @
         ''  "interview_questions": ["question1", "question2", "question3", "question4", "question5"]\<newline>'' @
         ''}\<newline>'' @
         ''\<newline>'' @
         ''Focus on:\<newline>'' @
         ''1. ATS compatibility and keyword matching\<newline>'' @
         ''2. Skills alignment with job requirements\<newline>'' @
         ''3. Experience relevance\<newline>'' @
         ''4. Areas for improvement\<newline>'' @
         ''5. Predicted interview questions based on the role\<newline>'' @
         ''\<newline>'' @
         ''Provide actionable, specific feedback.'')\<close>
    unfolding f(7) analysisPrompt_def prompt_template_def prompt_head_def
      prompt_before_title_def prompt_before_company_def prompt_before_description_def
      prompt_before_requirements_def prompt_tail_def resumeText_def or_not_specified_def
      placeholder_def
    by simp
  show ?thesis
    by (intro exI [of _ h] exI [of _ uid] exI [of _ b] exI [of _ rv] exI [of _ jv]
        exI [of _ r] exI [of _ j] conjI f(1) f(2) f(3) 1 2 3 4 5 6 7)
qed

lemma demo_reaches_analyze:
  assumes "getUser e = getUser demo_env" "JSON_parse e = demo_parse" "uuid_in e = Some"
    "\<forall>v u. db_error e (Select_resume v u) = None"
    "\<forall>v u. db_error e (Select_job_description v u) = None"
  shows "serve e demo_db demo_request =
     analyze e demo_db
       [Auth_get_user ''token-u1'', Db (Select_resume (JStr ''r1'') ''u1''),
        Db (Select_job_description (JStr ''j1'') ''u1'')]
       ''u1'' (JStr ''r1'') (JStr ''j1'') demo_resume demo_job"
proof -
  have a: "authenticate e demo_db demo_request =
      read_ids e demo_db [Auth_get_user ''token-u1''] ''u1'' demo_request"
    by (simp add: authenticate_def demo_request_def assms(1) demo_env_def Let_def)
  have ids: "required_ids (JObj [(''resumeId'', JStr ''r1''), (''jobDescriptionId'', JStr ''j1'')])
      = Some (JStr ''r1'', JStr ''j1'')"
    by (simp add: required_ids_def)
  have b: "read_ids e demo_db tr ''u1'' demo_request =
      get_rows e demo_db tr ''u1'' (JStr ''r1'') (JStr ''j1'')" for tr
    by (simp add: read_ids_def demo_request_def assms(2) demo_parse_def ids)
  have sr: "select_resume e demo_db (JStr ''r1'') ''u1'' = Some demo_resume"
    by (simp add: select_resume_def filter_key_def assms(3,4) demo_db_def demo_resume_def)
  have sj: "select_job_description e demo_db (JStr ''j1'') ''u1'' = Some demo_job"
    by (simp add: select_job_description_def filter_key_def assms(3,5) demo_db_def demo_job_def)
  have c: "get_rows e demo_db tr ''u1'' (JStr ''r1'') (JStr ''j1'') =
      analyze e demo_db
        (tr @ [Db (Select_resume (JStr ''r1'') ''u1''),
               Db (Select_job_description (JStr ''j1'') ''u1'')])
        ''u1'' (JStr ''r1'') (JStr ''j1'') demo_resume demo_job" for tr
    by (simp add: get_rows_def sr sj)
  have "serve e demo_db demo_request = authenticate e demo_db demo_request"
    by (simp add: serve_def demo_request_def)
  with a b c show ?thesis by simp
qed

lemma demo_fetch:
  assumes "getUser e = getUser demo_env" "JSON_parse e = demo_parse" "uuid_in e = Some"
    "\<forall>v u. db_error e (Select_resume v u) = None"
    "\<forall>v u. db_error e (Select_job_description v u) = None"
  shows "Openai_fetch (analysisPrompt demo_resume demo_job) \<in>
           set (effects (serve e demo_db demo_request))"
  by (simp add: demo_reaches_analyze [OF assms] analyze_fetch)

lemma demo_env_facts:
  "getUser demo_env = getUser demo_env"
  "JSON_parse demo_env = demo_parse"
  "uuid_in demo_env = Some"
  "\<forall>v u. db_error demo_env (Select_resume v u) = None"
  "\<forall>v u. db_error demo_env (Select_job_description v u) = None"
  by (simp_all add: demo_env_def)

theorem prompt_built_witness:
  \<open>Openai_fetch
     ((''\<newline>'' @
         ''Analyze the following resume against the job description and provide a comprehensive analysis.\<newline>'' @
         ''\<newline>'' @
         ''RESUME:\<newline>'') @
         ''Ten years of proof engineering'' @
         (''\<newline>'' @
         ''\<newline>'' @
         ''JOB DESCRIPTION:\<newline>'' @
         ''Title: '') @
         ''Verification engineer'' @
         (''\<newline>'' @
         ''Company: '') @
         ''Not specified'' @
         (''\<newline>'' @
         ''Description: '') @
         ''Prove programs correct'' @
         (''\<newline>'' @
         ''Requirements: '') @
         ''Isabelle'' @
         (''\<newline>'' @
         ''\<newline>'' @
         ''Please provide a detailed analysis in the following JSON format:\<newline>'' @
         ''{\<newline>'' @
         ''  "relevance_score": <number between 0-100>,\<newline>'' @
         ''  "missing_skills": ["skill1", "skill2"],\<newline>'' @
         ''  "strengths": ["strength1", "strength2"],\<newline>'' @
         ''  "weaknesses": ["weakness1", "weakness2"],\<newline>'' @
         ''  "improvement_suggestions": "Detailed suggestions for improvement",\<newline>'' @
         ''  "ai_summary": "Brief summary of the resume",\<newline>'' @
         ''  "interview_questions": ["question1", "question2", "question3", "question4", "question5"]\<newline>'' @
         ''}\<newline>'' @
         ''\<newline>'' @
         ''Focus on:\<newline>'' @
         ''1. ATS compatibility and keyword matching\<newline>'' @
         ''2. Skills alignment with job requirements\<newline>'' @
         ''3. Experience relevance\<newline>'' @
         ''4. Areas for improvement\<newline>'' @
         ''5. Predicted interview questions based on the role\<newline>'' @
         ''\<newline>'' @
         ''Provide actionable, specific feedback.''))
     \<in> set (effects (serve demo_env demo_db demo_request))\<close>
proof -
  have f: "Openai_fetch (analysisPrompt demo_resume demo_job) \<in>
      set (effects (serve demo_env demo_db demo_request))"
    by (rule demo_fetch [OF demo_env_facts])
  from prompt_built [OF f] obtain uid r j where
    r: "filter (\<lambda>x. r_id x = r_id r \<and> r_user_id x = uid) (resumes demo_db) = [r]"
       "filter (\<lambda>x. jd_id x = jd_id j \<and> jd_user_id x = uid) (job_descriptions demo_db) = [j]"
       \<open>analysisPrompt demo_resume demo_job =
         (''\<newline>'' @
         ''Analyze the following resume against the job description and provide a comprehensive analysis.\<newline>'' @
         ''\<newline>'' @
         ''RESUME:\<newline>'') @
         (case r_content_text r of
            None \<Rightarrow> ''Resume content would be extracted from the uploaded file''
          | Some t \<Rightarrow>
              if t = [] then ''Resume content would be extracted from the uploaded file'' else t) @
         (''\<newline>'' @
         ''\<newline>'' @
         ''JOB DESCRIPTION:\<newline>'' @
         ''Title: '') @
         jd_title j @
         (''\<newline>'' @
         ''Company: '') @
         (case jd_company j of
            None \<Rightarrow> ''Not specified''
          | Some t \<Rightarrow> if t = [] then ''Not specified'' else t) @
         (''\<newline>'' @
         ''Description: '') @
         jd_description j @
         (''\<newline>'' @
         ''Requirements: '') @
         (case jd_requirements j of
            None \<Rightarrow> ''Not specified''
          | Some t \<Rightarrow> if t = [] then ''Not specified'' else t) @
         (''\<newline>'' @
         ''\<newline>'' @
         ''Please provide a detailed analysis in the following JSON format:\<newline>'' @
         ''{\<newline>'' @
         ''  "relevance_score": <number between 0-100>,\<newline>'' @
         ''  "missing_skills": ["skill1", "skill2"],\<newline>'' @
         ''  "strengths": ["strength1", "strength2"],\<newline>'' @
         ''  "weaknesses": ["weakness1", "weakness2"],\<newline>'' @
         ''  "improvement_suggestions": "Detailed suggestions for improvement",\<newline>'' @
         ''  "ai_summary": "Brief summary of the resume",\<newline>'' @
         ''  "interview_questions": ["question1", "question2", "question3", "question4", "question5"]\<newline>'' @
         ''}\<newline>'' @
         ''\<newline>'' @
         ''Focus on:\<newline>'' @
         ''1. ATS compatibility and keyword matching\<newline>'' @
         ''2. Skills alignment with job requirements\<newline>'' @
         ''3. Experience relevance\<newline>'' @
         ''4. Areas for improvement\<newline>'' @
         ''5. Predicted interview questions based on the role\<newline>'' @
         ''\<newline>'' @
         ''Provide actionable, specific feedback.'')\<close>
    by blast
  from r(1) have "r \<in> set (filter (\<lambda>x. r_id x = r_id r \<and> r_user_id x = uid) (resumes demo_db))"
    by simp
  then have "r \<in> set (resumes demo_db)" by simp
  then have dr: "r = demo_resume" by (simp add: demo_db_def)
  from r(2) have
    "j \<in> set (filter (\<lambda>x. jd_id x = jd_id j \<and> jd_user_id x = uid) (job_descriptions demo_db))"
    by simp
  then have "j \<in> set (job_descriptions demo_db)" by simp
  then have dj: "j = demo_job" by (simp add: demo_db_def)
  have \<open>analysisPrompt demo_resume demo_job =
         (''\<newline>'' @
         ''Analyze the following resume against the job description and provide a comprehensive analysis.\<newline>'' @
         ''\<newline>'' @
         ''RESUME:\<newline>'') @
         ''Ten years of proof engineering'' @
         (''\<newline>'' @
         ''\<newline>'' @
         ''JOB DESCRIPTION:\<newline>'' @
         ''Title: '') @
         ''Verification engineer'' @
         (''\<newline>'' @
         ''Company: '') @
         ''Not specified'' @
         (''\<newline>'' @
         ''Description: '') @
         ''Prove programs correct'' @
         (''\<newline>'' @
         ''Requirements: '') @
         ''Isabelle'' @
         (''\<newline>'' @
         ''\<newline>'' @
         ''Please provide a detailed analysis in the following JSON format:\<newline>'' @
         ''{\<newline>'' @
         ''  "relevance_score": <number between 0-100>,\<newline>'' @
         ''  "missing_skills": ["skill1", "skill2"],\<newline>'' @
         ''  "strengths": ["strength1", "strength2"],\<newline>'' @
         ''  "weaknesses": ["weakness1", "weakness2"],\<newline>'' @
         ''  "improvement_suggestions": "Detailed suggestions for improvement",\<newline>'' @
         ''  "ai_summary": "Brief summary of the resume",\<newline>'' @
         ''  "interview_questions": ["question1", "question2", "question3", "question4", "question5"]\<newline>'' @
         ''}\<newline>'' @
         ''\<newline>'' @
         ''Focus on:\<newline>'' @
         ''1. ATS compatibility and keyword matching\<newline>'' @
         ''2. Skills alignment with job requirements\<newline>'' @
         ''3. Experience relevance\<newline>'' @
         ''4. Areas for improvement\<newline>'' @
         ''5. Predicted interview questions based on the role\<newline>'' @
         ''\<newline>'' @
         ''Provide actionable, specific feedback.'')\<close>
    using r(3) unfolding dr dj by (simp add: demo_resume_def demo_job_def)
  with f show ?thesis by simp
qed

text \<open>
  C9. A request with method \<^verbatim>\<open>OPTIONS\<close> is answered with status 200, the two CORS
  headers and no body; the auth service, the database and the model are not called, and
  the database is unchanged.
\<close>

theorem options_preflight:
  assumes "req_method req = ''OPTIONS''"
  shows "serve e d req =
     \<lparr>response = \<lparr>res_status = 200, res_headers = corsHeaders, res_body = No_body\<rparr>,
      database_after = d, effects = []\<rparr>"
  using assms by (simp add: serve_def)

theorem options_preflight_witness:
  "req_method (demo_request\<lparr>req_method := ''OPTIONS''\<rparr>) = ''OPTIONS'' \<and>
   serve demo_env demo_db (demo_request\<lparr>req_method := ''OPTIONS''\<rparr>) =
     \<lparr>response = \<lparr>res_status = 200, res_headers = corsHeaders, res_body = No_body\<rparr>,
      database_after = demo_db, effects = []\<rparr>"
proof -
  have h: "req_method (demo_request\<lparr>req_method := ''OPTIONS''\<rparr>) = ''OPTIONS''"
    by simp
  from h options_preflight [OF h, of demo_env demo_db] show ?thesis by simp
qed

text \<open>
  C2. The handler answers a request that carries no \<^verbatim>\<open>Authorization\<close> header with
  status 500 and the body \<^verbatim>\<open>{error: 'No authorization header', success: false}\<close>:
  the \<^verbatim>\<open>catch\<close> block gives 401 to the message \<^verbatim>\<open>Unauthorized\<close> only, which is
  what a rejected credential throws (\<open>rejected_credential_401\<close> below), not a missing
  header.
\<close>

theorem missing_header_500:
  assumes "req_method req \<noteq> ''OPTIONS''" and "req_authorization req = None"
  shows "response (serve e d req) =
           \<lparr>res_status = 500, res_headers = json_headers,
            res_body = Failure_body ''No authorization header''\<rparr> \<and>
         effects (serve e d req) = []"
  using assms by (simp add: serve_def authenticate_def error_response_def)

theorem missing_header_500_witness:
  "req_method (demo_request\<lparr>req_authorization := None\<rparr>) \<noteq> ''OPTIONS'' \<and>
   req_authorization (demo_request\<lparr>req_authorization := None\<rparr>) = None \<and>
   res_status (response (serve demo_env demo_db (demo_request\<lparr>req_authorization := None\<rparr>)))
     = 500 \<and>
   res_status (response (serve demo_env demo_db (demo_request\<lparr>req_authorization := None\<rparr>)))
     \<noteq> 401"
proof -
  have m: "req_method (demo_request\<lparr>req_authorization := None\<rparr>) \<noteq> ''OPTIONS''"
    by (simp add: demo_request_def)
  have a: "req_authorization (demo_request\<lparr>req_authorization := None\<rparr>) = None"
    by simp
  from m a missing_header_500 [OF m a, of demo_env demo_db] show ?thesis by simp
qed

lemma rejected_credential_401:
  assumes "req_method req \<noteq> ''OPTIONS''" and "req_authorization req = Some h" and "h \<noteq> []"
    and "au_user (getUser e (remove_first ''Bearer '' h)) = None \<or>
         au_error (getUser e (remove_first ''Bearer '' h)) \<noteq> None"
  shows "response (serve e d req) =
           \<lparr>res_status = 401, res_headers = json_headers,
            res_body = Failure_body ''Unauthorized''\<rparr> \<and>
         database_after (serve e d req) = d"
proof (cases "au_user (getUser e (remove_first ''Bearer '' h))")
  case None
  with assms(1-3) show ?thesis
    by (simp add: serve_def authenticate_def error_response_def Let_def)
next
  case (Some uid)
  with assms show ?thesis
    by (simp add: serve_def authenticate_def error_response_def Let_def)
qed

lemma save_analysis_ok:
  assumes "a \<noteq> JNull" and "db_error e (Insert_report (insert_payload uid rv jv a)) = None"
  shows "save_analysis e d tr uid rv jv r j a =
     \<lparr>response = ok_response (stored_report e (r_id r) (jd_id j) (insert_payload uid rv jv a)),
      database_after = d\<lparr>analysis_reports :=
        analysis_reports d @ [stored_report e (r_id r) (jd_id j) (insert_payload uid rv jv a)]\<rparr>,
      effects = tr @ [Db (Insert_report (insert_payload uid rv jv a))]\<rparr>"
  using assms by (simp add: save_analysis_def Let_def)

lemma save_analysis_refused:
  assumes "a \<noteq> JNull"
    and "db_error e (Insert_report (insert_payload uid rv jv a)) = Some err"
  shows "save_analysis e d tr uid rv jv r j a =
     thrown (Error ''Failed to save analysis'') d
       (tr @ [Db (Insert_report (insert_payload uid rv jv a))])"
  using assms by (simp add: save_analysis_def Let_def)

lemma analyze_unparseable:
  assumes "openai e (analysisPrompt r j) = Ok_content (Some s)" and "JSON_parse e s = None"
  shows "analyze e d tr uid rv jv r j =
     save_analysis e d (tr @ [Openai_fetch (analysisPrompt r j)]) uid rv jv r j fallback"
  using assms by (simp add: analyze_def Let_def)

lemma fallback_not_null: "fallback \<noteq> JNull"
  by (simp add: fallback_def)

lemma stored_fields:
  "ar_user_id (stored_report e rk jk (insert_payload uid rv jv a)) = uid"
  "ar_resume_id (stored_report e rk jk (insert_payload uid rv jv a)) = rk"
  "ar_job_description_id (stored_report e rk jk (insert_payload uid rv jv a)) = jk"
  "ar_relevance_score (stored_report e rk jk (insert_payload uid rv jv a)) =
     column (get_prop a ''relevance_score'')"
  "ar_missing_skills (stored_report e rk jk (insert_payload uid rv jv a)) =
     column (get_prop a ''missing_skills'')"
  "ar_strengths (stored_report e rk jk (insert_payload uid rv jv a)) =
     column (get_prop a ''strengths'')"
  "ar_weaknesses (stored_report e rk jk (insert_payload uid rv jv a)) =
     column (get_prop a ''weaknesses'')"
  "ar_improvement_suggestions (stored_report e rk jk (insert_payload uid rv jv a)) =
     column (get_prop a ''improvement_suggestions'')"
  "ar_ai_summary (stored_report e rk jk (insert_payload uid rv jv a)) =
     column (get_prop a ''ai_summary'')"
  "ar_interview_questions (stored_report e rk jk (insert_payload uid rv jv a)) =
     column (get_prop a ''interview_questions'')"
  by (simp_all add: stored_report_def insert_payload_def)

lemma fallback_stored:
  "JObj (analysis_fields (stored_report e rk jk (insert_payload uid rv jv fallback))) = fallback"
  by (simp add: analysis_fields_def stored_report_def insert_payload_def fallback_def)

text \<open>
  C3. In every run in which the model is called, answers with content that
  \<^verbatim>\<open>JSON.parse\<close> rejects, and the database accepts the insert, the handler answers
  200 with \<^verbatim>\<open>success: true\<close> and the saved row; the row has been appended to
  \<^verbatim>\<open>analysis_reports\<close>, its seven analysis columns are those of the fixed fallback
  object, and its \<^verbatim>\<open>user_id\<close> is the authenticated caller.
\<close>

theorem fallback_report:
  assumes "Openai_fetch p \<in> set (effects (serve e d req))"
    and "openai e p = Ok_content (Some s)"
    and "JSON_parse e s = None"
    and "\<forall>q. db_error e (Insert_report q) = None"
  shows "\<exists>saved uid.
      response (serve e d req) =
        \<lparr>res_status = 200, res_headers = json_headers, res_body = Success_body saved\<rparr> \<and>
      database_after (serve e d req) =
        d\<lparr>analysis_reports := analysis_reports d @ [saved]\<rparr> \<and>
      JObj (analysis_fields saved) = fallback \<and>
      ar_user_id saved = uid \<and>
      (\<exists>h. req_authorization req = Some h \<and>
           au_user (getUser e (remove_first ''Bearer '' h)) = Some uid)"
proof -
  from serve_fetch [OF assms(1)] obtain h uid rv jv r j where
    f: "req_authorization req = Some h"
       "au_user (getUser e (remove_first ''Bearer '' h)) = Some uid"
       "p = analysisPrompt r j"
       "serve e d req =
          analyze e d [Auth_get_user (remove_first ''Bearer '' h),
                       Db (Select_resume rv uid), Db (Select_job_description jv uid)]
            uid rv jv r j"
    by blast
  let ?saved = "stored_report e (r_id r) (jd_id j) (insert_payload uid rv jv fallback)"
  let ?tr = "[Auth_get_user (remove_first ''Bearer '' h),
              Db (Select_resume rv uid), Db (Select_job_description jv uid)]"
  have o: "openai e (analysisPrompt r j) = Ok_content (Some s)"
    using assms(2) f(3) by simp
  have i: "db_error e (Insert_report (insert_payload uid rv jv fallback)) = None"
    using assms(4) by simp
  have run: "serve e d req =
      \<lparr>response = ok_response ?saved,
       database_after = d\<lparr>analysis_reports := analysis_reports d @ [?saved]\<rparr>,
       effects = (?tr @ [Openai_fetch (analysisPrompt r j)]) @
         [Db (Insert_report (insert_payload uid rv jv fallback))]\<rparr>"
    unfolding f(4) analyze_unparseable [OF o assms(3)]
    by (rule save_analysis_ok [OF fallback_not_null i])
  have 1: "response (serve e d req) =
      \<lparr>res_status = 200, res_headers = json_headers, res_body = Success_body ?saved\<rparr>"
    by (simp add: run ok_response_def)
  have 2: "database_after (serve e d req) =
      d\<lparr>analysis_reports := analysis_reports d @ [?saved]\<rparr>"
    by (simp add: run)
  have 3: "JObj (analysis_fields ?saved) = fallback"
    by (rule fallback_stored)
  have 4: "ar_user_id ?saved = uid"
    by (simp add: stored_fields)
  have 5: "\<exists>h. req_authorization req = Some h \<and>
           au_user (getUser e (remove_first ''Bearer '' h)) = Some uid"
    using f(1,2) by blast
  show ?thesis
    by (intro exI [of _ ?saved] exI [of _ uid] conjI 1 2 3 4 5)
qed

lemma demo_refusing_facts:
  "getUser (demo_env\<lparr>db_error := insert_refused\<rparr>) = getUser demo_env"
  "JSON_parse (demo_env\<lparr>db_error := insert_refused\<rparr>) = demo_parse"
  "uuid_in (demo_env\<lparr>db_error := insert_refused\<rparr>) = Some"
  "\<forall>v u. db_error (demo_env\<lparr>db_error := insert_refused\<rparr>) (Select_resume v u) = None"
  "\<forall>v u. db_error (demo_env\<lparr>db_error := insert_refused\<rparr>) (Select_job_description v u)
     = None"
  by (simp_all add: demo_env_def insert_refused_def)

lemma demo_answer_unparseable: "demo_parse demo_answer = None"
  by (simp add: demo_parse_def demo_answer_def demo_body_def)

theorem fallback_not_saved:
  "Openai_fetch (analysisPrompt demo_resume demo_job) \<in>
     set (effects (serve (demo_env\<lparr>db_error := insert_refused\<rparr>) demo_db demo_request)) \<and>
   openai (demo_env\<lparr>db_error := insert_refused\<rparr>) (analysisPrompt demo_resume demo_job) =
     Ok_content (Some demo_answer) \<and>
   JSON_parse (demo_env\<lparr>db_error := insert_refused\<rparr>) demo_answer = None \<and>
   res_status (response (serve (demo_env\<lparr>db_error := insert_refused\<rparr>) demo_db demo_request))
     = 500 \<and>
   res_body (response (serve (demo_env\<lparr>db_error := insert_refused\<rparr>) demo_db demo_request))
     = Failure_body ''Failed to save analysis'' \<and>
   database_after (serve (demo_env\<lparr>db_error := insert_refused\<rparr>) demo_db demo_request)
     = demo_db"
proof -
  let ?e = "demo_env\<lparr>db_error := insert_refused\<rparr>"
  let ?tr = "[Auth_get_user ''token-u1'', Db (Select_resume (JStr ''r1'') ''u1''),
              Db (Select_job_description (JStr ''j1'') ''u1'')]"
  have f: "Openai_fetch (analysisPrompt demo_resume demo_job) \<in>
      set (effects (serve ?e demo_db demo_request))"
    by (rule demo_fetch [OF demo_refusing_facts])
  have o: "openai ?e (analysisPrompt demo_resume demo_job) = Ok_content (Some demo_answer)"
    by (simp add: demo_env_def)
  have u: "JSON_parse ?e demo_answer = None"
    by (simp add: demo_env_def demo_answer_unparseable)
  have i: "db_error ?e (Insert_report (insert_payload ''u1'' (JStr ''r1'') (JStr ''j1'') fallback)) =
      Some ''connection refused''"
    by (simp add: insert_refused_def)
  have run: "serve ?e demo_db demo_request =
      thrown (Error ''Failed to save analysis'') demo_db
        ((?tr @ [Openai_fetch (analysisPrompt demo_resume demo_job)]) @
         [Db (Insert_report (insert_payload ''u1'' (JStr ''r1'') (JStr ''j1'') fallback))])"
    unfolding demo_reaches_analyze [OF demo_refusing_facts] analyze_unparseable [OF o u]
    by (rule save_analysis_refused [OF fallback_not_null i])
  have s: "res_status (response (serve ?e demo_db demo_request)) = 500"
    by (simp add: run error_response_def)
  have b: "res_body (response (serve ?e demo_db demo_request)) =
      Failure_body ''Failed to save analysis''"
    by (simp add: run error_response_def)
  have d: "database_after (serve ?e demo_db demo_request) = demo_db"
    by (simp add: run)
  from f o u s b d show ?thesis by blast
qed

theorem fallback_report_witness:
  "Openai_fetch (analysisPrompt demo_resume demo_job) \<in>
     set (effects (serve demo_env demo_db demo_request)) \<and>
   openai demo_env (analysisPrompt demo_resume demo_job) = Ok_content (Some demo_answer) \<and>
   JSON_parse demo_env demo_answer = None \<and>
   (\<forall>q. db_error demo_env (Insert_report q) = None) \<and>
   (\<exists>saved.
      response (serve demo_env demo_db demo_request) =
        \<lparr>res_status = 200, res_headers = json_headers, res_body = Success_body saved\<rparr> \<and>
      analysis_reports (database_after (serve demo_env demo_db demo_request)) = [saved] \<and>
      ar_relevance_score saved = JNum 75 \<and>
      JObj (analysis_fields saved) = fallback \<and>
      ar_user_id saved = ''u1'')"
proof -
  have f: "Openai_fetch (analysisPrompt demo_resume demo_job) \<in>
      set (effects (serve demo_env demo_db demo_request))"
    by (rule demo_fetch [OF demo_env_facts])
  have o: "openai demo_env (analysisPrompt demo_resume demo_job) =
      Ok_content (Some demo_answer)"
    by (simp add: demo_env_def)
  have u: "JSON_parse demo_env demo_answer = None"
    by (simp add: demo_env_def demo_answer_unparseable)
  have i: "\<forall>q. db_error demo_env (Insert_report q) = None"
    by (simp add: demo_env_def)
  from fallback_report [OF f o u i] obtain saved uid h where
    s: "response (serve demo_env demo_db demo_request) =
          \<lparr>res_status = 200, res_headers = json_headers, res_body = Success_body saved\<rparr>"
       "database_after (serve demo_env demo_db demo_request) =
          demo_db\<lparr>analysis_reports := analysis_reports demo_db @ [saved]\<rparr>"
       "JObj (analysis_fields saved) = fallback"
       "ar_user_id saved = uid"
       "req_authorization demo_request = Some h"
       "au_user (getUser demo_env (remove_first ''Bearer '' h)) = Some uid"
    by blast
  from s(5) have "h = ''Bearer token-u1''"
    by (simp add: demo_request_def)
  with s(6) have uid: "uid = ''u1''"
    by (simp add: demo_env_def)
  have "analysis_reports demo_db = []"
    by (simp add: demo_db_def)
  then have rows: "analysis_reports (database_after (serve demo_env demo_db demo_request)) =
      [saved]"
    by (simp add: s(2))
  have score: "ar_relevance_score saved = JNum 75"
    using s(3) by (simp add: analysis_fields_def fallback_def)
  from f o u i s(1) rows score s(3) s(4) uid show ?thesis by blast
qed

lemma analyze_null_content:
  assumes "openai e (analysisPrompt r j) = Ok_content None"
    and "JSON_parse e ''null'' = Some JNull"
  shows "analyze e d tr uid rv jv r j =
     thrown TypeError d (tr @ [Openai_fetch (analysisPrompt r j)])"
  using assms by (simp add: analyze_def Let_def save_analysis_def)

text \<open>
  C6. A run that reaches the model (so: a valid credential, and ids of a resume and a job
  description that the lookups found among the caller's rows) and gets an answer whose
  content is null does not return a report: \<^verbatim>\<open>JSON.parse(null)\<close> is null, reading
  \<^verbatim>\<open>analysisResult.relevance_score\<close> throws, and the handler answers 500 with
  \<^verbatim>\<open>success: false\<close> without issuing the insert. In every other run in which the
  model answers and the insert is accepted the report is returned and stored under the
  caller's identity (\<open>analysis_persisted\<close> and \<open>owned_ids_reach_model\<close> below).
\<close>

theorem null_content_fails:
  assumes "Openai_fetch p \<in> set (effects (serve e d req))"
    and "openai e p = Ok_content None"
    and "JSON_parse e ''null'' = Some JNull"
  shows "response (serve e d req) =
           \<lparr>res_status = 500, res_headers = json_headers,
            res_body = Failure_body (message TypeError)\<rparr> \<and>
         database_after (serve e d req) = d \<and>
         (\<forall>q. Db (Insert_report q) \<notin> set (effects (serve e d req)))"
proof -
  from serve_fetch [OF assms(1)] obtain h uid rv jv r j where
    f: "p = analysisPrompt r j"
       "serve e d req =
          analyze e d [Auth_get_user (remove_first ''Bearer '' h),
                       Db (Select_resume rv uid), Db (Select_job_description jv uid)]
            uid rv jv r j"
    by blast
  have o: "openai e (analysisPrompt r j) = Ok_content None"
    using assms(2) f(1) by simp
  show ?thesis
    unfolding f(2) analyze_null_content [OF o assms(3)]
    by (simp add: error_response_def)
qed

theorem null_content_fails_witness:
  "req_authorization demo_request = Some ''Bearer token-u1'' \<and>
   au_user (getUser demo_env ''token-u1'') = Some ''u1'' \<and>
   au_error (getUser demo_env ''token-u1'') = None \<and>
   JSON_parse demo_env (req_body demo_request) =
     Some (JObj [(''resumeId'', JStr ''r1''), (''jobDescriptionId'', JStr ''j1'')]) \<and>
   resumes demo_db = [demo_resume] \<and> r_id demo_resume = ''r1'' \<and>
   r_user_id demo_resume = ''u1'' \<and>
   job_descriptions demo_db = [demo_job] \<and> jd_id demo_job = ''j1'' \<and>
   jd_user_id demo_job = ''u1'' \<and>
   openai (demo_env\<lparr>openai := (\<lambda>p. Ok_content None)\<rparr>)
     (analysisPrompt demo_resume demo_job) = Ok_content None \<and>
   (\<forall>c. db_error (demo_env\<lparr>openai := (\<lambda>p. Ok_content None)\<rparr>) c = None) \<and>
   res_status (response (serve (demo_env\<lparr>openai := (\<lambda>p. Ok_content None)\<rparr>)
                           demo_db demo_request)) = 500 \<and>
   database_after (serve (demo_env\<lparr>openai := (\<lambda>p. Ok_content None)\<rparr>)
                     demo_db demo_request) = demo_db"
proof -
  let ?e = "demo_env\<lparr>openai := (\<lambda>p. Ok_content None)\<rparr>"
  have facts: "getUser ?e = getUser demo_env" "JSON_parse ?e = demo_parse"
      "uuid_in ?e = Some"
      "\<forall>v u. db_error ?e (Select_resume v u) = None"
      "\<forall>v u. db_error ?e (Select_job_description v u) = None"
    by (simp_all add: demo_env_def)
  have f: "Openai_fetch (analysisPrompt demo_resume demo_job) \<in>
      set (effects (serve ?e demo_db demo_request))"
    by (rule demo_fetch [OF facts])
  have o: "openai ?e (analysisPrompt demo_resume demo_job) = Ok_content None"
    by simp
  have n: "JSON_parse ?e ''null'' = Some JNull"
    by (simp add: demo_env_def demo_parse_def demo_body_def)
  have inp: "req_authorization demo_request = Some ''Bearer token-u1''"
      "au_user (getUser demo_env ''token-u1'') = Some ''u1''"
      "au_error (getUser demo_env ''token-u1'') = None"
      "JSON_parse demo_env (req_body demo_request) =
         Some (JObj [(''resumeId'', JStr ''r1''), (''jobDescriptionId'', JStr ''j1'')])"
      "resumes demo_db = [demo_resume]" "r_id demo_resume = ''r1''"
      "r_user_id demo_resume = ''u1''"
      "job_descriptions demo_db = [demo_job]" "jd_id demo_job = ''j1''"
      "jd_user_id demo_job = ''u1''"
      "\<forall>c. db_error ?e c = None"
    by (simp_all add: demo_request_def demo_env_def demo_parse_def demo_db_def
        demo_resume_def demo_job_def)
  from null_content_fails [OF f o n]
  have "res_status (response (serve ?e demo_db demo_request)) = 500"
       "database_after (serve ?e demo_db demo_request) = demo_db"
    by simp_all
  with inp o show ?thesis by blast
qed

lemma filter_unique:
  "distinct (map f xs) \<Longrightarrow> x \<in> set xs \<Longrightarrow> P x \<Longrightarrow>
   filter (\<lambda>y. f y = f x \<and> P y) xs = [x]"
proof (induction xs)
  case Nil
  then show ?case by simp
next
  case (Cons y ys)
  show ?case
  proof (cases "y = x")
    case True
    with Cons.prems have "f x \<notin> f ` set ys" by simp
    then have "\<forall>y \<in> set ys. f y \<noteq> f x"
      by (metis imageI)
    then have "filter (\<lambda>y. f y = f x \<and> P y) ys = []"
      by (simp add: filter_empty_conv)
    with True Cons.prems show ?thesis by simp
  next
    case False
    with Cons.prems have x: "x \<in> set ys" by simp
    with Cons.prems have "f y \<noteq> f x" by auto
    with Cons x show ?thesis by simp
  qed
qed

lemma owned_ids_reach_model:
  assumes "req_method req \<noteq> ''OPTIONS''"
    and "req_authorization req = Some h" and "h \<noteq> []"
    and "au_user (getUser e (remove_first ''Bearer '' h)) = Some uid"
    and "au_error (getUser e (remove_first ''Bearer '' h)) = None"
    and "JSON_parse e (req_body req) = Some b"
    and "get_prop b ''resumeId'' = Some rv" and "truthy (Some rv)"
    and "get_prop b ''jobDescriptionId'' = Some jv" and "truthy (Some jv)"
    and "filter_key e rv = Some (r_id r)" and "filter_key e jv = Some (jd_id j)"
    and "r \<in> set (resumes d)" and "r_user_id r = uid"
    and "j \<in> set (job_descriptions d)" and "jd_user_id j = uid"
    and "distinct (map r_id (resumes d))" and "distinct (map jd_id (job_descriptions d))"
    and "\<forall>c. db_error e c = None"
  shows "serve e d req =
     analyze e d [Auth_get_user (remove_first ''Bearer '' h),
                  Db (Select_resume rv uid), Db (Select_job_description jv uid)]
       uid rv jv r j"
proof -
  have nn: "b \<noteq> JNull" using assms(7) by (cases b) simp_all
  have ids: "required_ids b = Some (rv, jv)"
    using assms(7-10) by (simp add: required_ids_def)
  have "filter (\<lambda>y. r_id y = r_id r \<and> r_user_id y = uid) (resumes d) = [r]"
    using filter_unique [of r_id "resumes d" r "\<lambda>y. r_user_id y = uid"] assms(13,14,17)
    by simp
  then have sr: "select_resume e d rv uid = Some r"
    using assms(11,19) by (simp add: select_resume_def)
  have "filter (\<lambda>y. jd_id y = jd_id j \<and> jd_user_id y = uid) (job_descriptions d) = [j]"
    using filter_unique [of jd_id "job_descriptions d" j "\<lambda>y. jd_user_id y = uid"]
      assms(15,16,18)
    by simp
  then have sj: "select_job_description e d jv uid = Some j"
    using assms(12,19) by (simp add: select_job_description_def)
  have 1: "serve e d req = authenticate e d req"
    using assms(1) by (simp add: serve_def)
  have 2: "authenticate e d req =
      read_ids e d [Auth_get_user (remove_first ''Bearer '' h)] uid req"
    using assms(2-5) by (simp add: authenticate_def Let_def)
  have 3: "read_ids e d tr uid req = get_rows e d tr uid rv jv" for tr
    using assms(6) nn ids by (simp add: read_ids_def)
  have 4: "get_rows e d tr uid rv jv =
      analyze e d (tr @ [Db (Select_resume rv uid), Db (Select_job_description jv uid)])
        uid rv jv r j" for tr
    using sr sj by (simp add: get_rows_def)
  from 1 2 3 4 show ?thesis by simp
qed

lemma analysis_persisted:
  assumes "Openai_fetch p \<in> set (effects (serve e d req))"
    and "openai e p = Ok_content c"
    and "a = (case JSON_parse e (case c of None \<Rightarrow> ''null'' | Some s \<Rightarrow> s) of
                None \<Rightarrow> fallback | Some v \<Rightarrow> v)"
    and "a \<noteq> JNull"
    and "\<forall>q. db_error e (Insert_report q) = None"
  shows "\<exists>saved uid.
      response (serve e d req) =
        \<lparr>res_status = 200, res_headers = json_headers, res_body = Success_body saved\<rparr> \<and>
      database_after (serve e d req) =
        d\<lparr>analysis_reports := analysis_reports d @ [saved]\<rparr> \<and>
      analysis_fields saved =
        map (\<lambda>k. (k, column (get_prop a k)))
          [''relevance_score'', ''missing_skills'', ''strengths'', ''weaknesses'',
           ''improvement_suggestions'', ''ai_summary'', ''interview_questions''] \<and>
      ar_user_id saved = uid \<and>
      (\<exists>h. req_authorization req = Some h \<and>
           au_user (getUser e (remove_first ''Bearer '' h)) = Some uid)"
proof -
  from serve_fetch [OF assms(1)] obtain h uid rv jv r j where
    f: "req_authorization req = Some h"
       "au_user (getUser e (remove_first ''Bearer '' h)) = Some uid"
       "p = analysisPrompt r j"
       "serve e d req =
          analyze e d [Auth_get_user (remove_first ''Bearer '' h),
                       Db (Select_resume rv uid), Db (Select_job_description jv uid)]
            uid rv jv r j"
    by blast
  let ?saved = "stored_report e (r_id r) (jd_id j) (insert_payload uid rv jv a)"
  let ?tr = "[Auth_get_user (remove_first ''Bearer '' h),
              Db (Select_resume rv uid), Db (Select_job_description jv uid)]"
  have o: "openai e (analysisPrompt r j) = Ok_content c"
    using assms(2) f(3) by simp
  have an: "analyze e d ?tr uid rv jv r j =
      save_analysis e d (?tr @ [Openai_fetch (analysisPrompt r j)]) uid rv jv r j a"
    using o assms(3) by (simp add: analyze_def Let_def)
  have i: "db_error e (Insert_report (insert_payload uid rv jv a)) = None"
    using assms(5) by simp
  have run: "serve e d req =
      \<lparr>response = ok_response ?saved,
       database_after = d\<lparr>analysis_reports := analysis_reports d @ [?saved]\<rparr>,
       effects = (?tr @ [Openai_fetch (analysisPrompt r j)]) @
         [Db (Insert_report (insert_payload uid rv jv a))]\<rparr>"
    unfolding f(4) an by (rule save_analysis_ok [OF assms(4) i])
  have 1: "response (serve e d req) =
      \<lparr>res_status = 200, res_headers = json_headers, res_body = Success_body ?saved\<rparr>"
    by (simp add: run ok_response_def)
  have 2: "database_after (serve e d req) =
      d\<lparr>analysis_reports := analysis_reports d @ [?saved]\<rparr>"
    by (simp add: run)
  have 3: "analysis_fields ?saved =
        map (\<lambda>k. (k, column (get_prop a k)))
          [''relevance_score'', ''missing_skills'', ''strengths'', ''weaknesses'',
           ''improvement_suggestions'', ''ai_summary'', ''interview_questions'']"
    by (simp add: analysis_fields_def stored_fields)
  have 4: "ar_user_id ?saved = uid"
    by (simp add: stored_fields)
  have 5: "\<exists>h. req_authorization req = Some h \<and>
           au_user (getUser e (remove_first ''Bearer '' h)) = Some uid"
    using f(1,2) by blast
  show ?thesis
    by (intro exI [of _ ?saved] exI [of _ uid] conjI 1 2 3 4 5)
qed

lemma failure_500:
  assumes "message x \<noteq> ''Unauthorized''"
  shows "res_status (response (thrown x d tr)) = 500 \<and>
         (\<exists>m. res_body (response (thrown x d tr)) = Failure_body m) \<and>
         database_after (thrown x d tr) = d"
  using assms by (simp add: error_response_def)

lemma required_ids_truthy:
  assumes "required_ids b = Some (rv, jv)"
  shows "get_prop b ''resumeId'' = Some rv \<and> truthy (Some rv) \<and>
         get_prop b ''jobDescriptionId'' = Some jv \<and> truthy (Some jv)"
proof (cases "get_prop b ''resumeId''")
  case None
  with assms show ?thesis by (simp add: required_ids_def)
next
  case (Some x)
  note x = this
  show ?thesis
  proof (cases "get_prop b ''jobDescriptionId''")
    case None
    with x assms show ?thesis by (simp add: required_ids_def)
  next
    case (Some y)
    with x assms show ?thesis by (simp add: required_ids_def split: if_splits)
  qed
qed

text \<open>
  C5. With a valid credential, a request whose body does not give, as \<^verbatim>\<open>resumeId\<close>
  and \<^verbatim>\<open>jobDescriptionId\<close>, two truthy values that the database reads, in the
  filter, as the keys of a resume and a job description that both belong to the caller
  (the body is not JSON, lacks an id, or an id names no row of the caller) is answered
  with status 500 and a \<^verbatim>\<open>success: false\<close> body, and the database is unchanged.
\<close>

theorem bad_ids_fail:
  assumes "req_method req \<noteq> ''OPTIONS''"
    and "req_authorization req = Some h" and "h \<noteq> []"
    and "au_user (getUser e (remove_first ''Bearer '' h)) = Some uid"
    and "au_error (getUser e (remove_first ''Bearer '' h)) = None"
    and bad: "\<not> (\<exists>b rv jv r j. JSON_parse e (req_body req) = Some b \<and>
                 get_prop b ''resumeId'' = Some rv \<and> truthy (Some rv) \<and>
                 get_prop b ''jobDescriptionId'' = Some jv \<and> truthy (Some jv) \<and>
                 filter_key e rv = Some (r_id r) \<and>
                 filter_key e jv = Some (jd_id j) \<and>
                 r \<in> set (resumes d) \<and> r_user_id r = uid \<and>
                 j \<in> set (job_descriptions d) \<and> jd_user_id j = uid)"
  shows "res_status (response (serve e d req)) = 500 \<and>
         (\<exists>m. res_body (response (serve e d req)) = Failure_body m) \<and>
         database_after (serve e d req) = d"
proof -
  let ?tr = "[Auth_get_user (remove_first ''Bearer '' h)]"
  have s: "serve e d req = read_ids e d ?tr uid req"
    using assms(1-5) by (simp add: serve_def authenticate_def Let_def)
  show ?thesis
  proof (cases "JSON_parse e (req_body req)")
    case None
    then have "serve e d req = thrown SyntaxError d ?tr"
      by (simp add: s read_ids_def)
    then show ?thesis using failure_500 [of SyntaxError d ?tr] by simp
  next
    case (Some b)
    note b = this
    show ?thesis
    proof (cases "b = JNull")
      case True
      with b have "serve e d req = thrown TypeError d ?tr"
        by (simp add: s read_ids_def)
      then show ?thesis using failure_500 [of TypeError d ?tr] by simp
    next
      case nn: False
      show ?thesis
      proof (cases "required_ids b")
        case None
        with b nn have "serve e d req =
            thrown (Error ''Resume ID and Job Description ID are required'') d ?tr"
          by (simp add: s read_ids_def)
        then show ?thesis
          using failure_500 [of "Error ''Resume ID and Job Description ID are required''" d ?tr]
          by simp
      next
        case (Some ids)
        then obtain rv jv where ids: "required_ids b = Some (rv, jv)" by (cases ids) simp
        with b nn have g: "serve e d req = get_rows e d ?tr uid rv jv"
          by (simp add: s read_ids_def)
        show ?thesis
        proof (cases "select_resume e d rv uid")
          case None
          then have "serve e d req =
              thrown (Error ''Resume not found'') d (?tr @ [Db (Select_resume rv uid)])"
            by (simp add: g get_rows_def)
          then show ?thesis
            using failure_500 [of "Error ''Resume not found''" d
                "?tr @ [Db (Select_resume rv uid)]"]
            by simp
        next
          case (Some r)
          note r = this
          show ?thesis
          proof (cases "select_job_description e d jv uid")
            case None
            with r have "serve e d req =
                thrown (Error ''Job description not found'') d
                  (?tr @ [Db (Select_resume rv uid), Db (Select_job_description jv uid)])"
              by (simp add: g get_rows_def)
            then show ?thesis
              using failure_500 [of "Error ''Job description not found''" d
                  "?tr @ [Db (Select_resume rv uid), Db (Select_job_description jv uid)]"]
              by simp
          next
            case (Some j)
            from select_resume_Some [OF r] select_job_description_Some [OF Some]
              required_ids_truthy [OF ids] b
            have "JSON_parse e (req_body req) = Some b \<and>
                 get_prop b ''resumeId'' = Some rv \<and> truthy (Some rv) \<and>
                 get_prop b ''jobDescriptionId'' = Some jv \<and> truthy (Some jv) \<and>
                 filter_key e rv = Some (r_id r) \<and>
                 filter_key e jv = Some (jd_id j) \<and>
                 r \<in> set (resumes d) \<and> r_user_id r = uid \<and>
                 j \<in> set (job_descriptions d) \<and> jd_user_id j = uid"
              by simp
            with bad show ?thesis by blast
          qed
        qed
      qed
    qed
  qed
qed

theorem missing_ids_status:
  "req_authorization (demo_request\<lparr>req_body := ''{}''\<rparr>) = Some ''Bearer token-u1'' \<and>
   au_user (getUser demo_env ''token-u1'') = Some ''u1'' \<and>
   au_error (getUser demo_env ''token-u1'') = None \<and>
   JSON_parse demo_env (req_body (demo_request\<lparr>req_body := ''{}''\<rparr>)) = Some (JObj []) \<and>
   get_prop (JObj []) ''resumeId'' = None \<and>
   res_status (response (serve demo_env demo_db (demo_request\<lparr>req_body := ''{}''\<rparr>))) = 500 \<and>
   \<not> (400 \<le> res_status (response (serve demo_env demo_db (demo_request\<lparr>req_body := ''{}''\<rparr>)))
      \<and> res_status (response (serve demo_env demo_db (demo_request\<lparr>req_body := ''{}''\<rparr>)))
          < 500)"
proof -
  have p: "demo_parse ''{}'' = Some (JObj [])"
    by (simp add: demo_parse_def demo_body_def)
  have a: "authenticate demo_env demo_db (demo_request\<lparr>req_body := ''{}''\<rparr>) =
      read_ids demo_env demo_db [Auth_get_user ''token-u1''] ''u1''
        (demo_request\<lparr>req_body := ''{}''\<rparr>)"
    by (simp add: authenticate_def demo_request_def demo_env_def Let_def)
  have r: "read_ids demo_env demo_db [Auth_get_user ''token-u1''] ''u1''
        (demo_request\<lparr>req_body := ''{}''\<rparr>) =
      thrown (Error ''Resume ID and Job Description ID are required'') demo_db
        [Auth_get_user ''token-u1'']"
    by (simp add: read_ids_def demo_env_def p required_ids_def)
  have run: "serve demo_env demo_db (demo_request\<lparr>req_body := ''{}''\<rparr>) =
      thrown (Error ''Resume ID and Job Description ID are required'') demo_db
        [Auth_get_user ''token-u1'']"
  proof -
    have "req_method (demo_request\<lparr>req_body := ''{}''\<rparr>) \<noteq> ''OPTIONS''"
      by (simp add: demo_request_def)
    then have "serve demo_env demo_db (demo_request\<lparr>req_body := ''{}''\<rparr>) =
        authenticate demo_env demo_db (demo_request\<lparr>req_body := ''{}''\<rparr>)"
      by (simp add: serve_def)
    with a r show ?thesis by simp
  qed
  have st: "res_status (response (serve demo_env demo_db (demo_request\<lparr>req_body := ''{}''\<rparr>)))
      = 500"
    by (simp add: run error_response_def)
  have inp: "req_authorization (demo_request\<lparr>req_body := ''{}''\<rparr>) = Some ''Bearer token-u1''"
      "au_user (getUser demo_env ''token-u1'') = Some ''u1''"
      "au_error (getUser demo_env ''token-u1'') = None"
      "JSON_parse demo_env (req_body (demo_request\<lparr>req_body := ''{}''\<rparr>)) = Some (JObj [])"
      "get_prop (JObj []) ''resumeId'' = None"
    by (simp_all add: demo_request_def demo_env_def p)
  from inp st show ?thesis by simp
qed

theorem bad_ids_fail_witness:
  "req_method (demo_request\<lparr>req_body := ''{}''\<rparr>) \<noteq> ''OPTIONS'' \<and>
   req_authorization (demo_request\<lparr>req_body := ''{}''\<rparr>) = Some ''Bearer token-u1'' \<and>
   au_user (getUser demo_env (remove_first ''Bearer '' ''Bearer token-u1'')) = Some ''u1'' \<and>
   au_error (getUser demo_env (remove_first ''Bearer '' ''Bearer token-u1'')) = None \<and>
   JSON_parse demo_env (req_body (demo_request\<lparr>req_body := ''{}''\<rparr>)) = Some (JObj []) \<and>
   res_status (response (serve demo_env demo_db (demo_request\<lparr>req_body := ''{}''\<rparr>))) = 500 \<and>
   (\<exists>m. res_body (response (serve demo_env demo_db (demo_request\<lparr>req_body := ''{}''\<rparr>))) =
      Failure_body m) \<and>
   database_after (serve demo_env demo_db (demo_request\<lparr>req_body := ''{}''\<rparr>)) = demo_db"
proof -
  let ?req = "demo_request\<lparr>req_body := ''{}''\<rparr>"
  have p: "JSON_parse demo_env (req_body ?req) = Some (JObj [])"
    by (simp add: demo_env_def demo_parse_def demo_body_def)
  have m: "req_method ?req \<noteq> ''OPTIONS''"
    by (simp add: demo_request_def)
  have h: "req_authorization ?req = Some ''Bearer token-u1''"
    by (simp add: demo_request_def)
  have ne: "''Bearer token-u1'' \<noteq> []" by simp
  have u: "au_user (getUser demo_env (remove_first ''Bearer '' ''Bearer token-u1'')) =
      Some ''u1''"
    by (simp add: demo_env_def)
  have er: "au_error (getUser demo_env (remove_first ''Bearer '' ''Bearer token-u1'')) = None"
    by (simp add: demo_env_def)
  have bad: "\<not> (\<exists>b rv jv r j. JSON_parse demo_env (req_body ?req) = Some b \<and>
                 get_prop b ''resumeId'' = Some rv \<and> truthy (Some rv) \<and>
                 get_prop b ''jobDescriptionId'' = Some jv \<and> truthy (Some jv) \<and>
                 filter_key demo_env rv = Some (r_id r) \<and>
                 filter_key demo_env jv = Some (jd_id j) \<and>
                 r \<in> set (resumes demo_db) \<and> r_user_id r = ''u1'' \<and>
                 j \<in> set (job_descriptions demo_db) \<and> jd_user_id j = ''u1'')"
  proof -
    have "JSON_parse demo_env ''{}'' = Some (JObj [])"
      by (simp add: demo_env_def demo_parse_def demo_body_def)
    then show ?thesis by simp
  qed
  from m h u er p bad_ids_fail [OF m h ne u er bad] show ?thesis by blast
qed

lemma array_id_finds_row:
  "select_resume demo_env demo_db (JArr [JStr ''r1'']) ''u1'' = Some demo_resume"
  by (simp add: select_resume_def filter_key_def demo_env_def demo_db_def demo_resume_def)

end
